theory Spec2Isabelle
  imports Main "HOL-Library.Word"
begin

unbundle bit_operations_syntax

section \<open>JavaScript values used by the parser\<close>

text \<open>
  The input buffers (\<^verbatim>\<open>ArrayType\<close>, a \<^verbatim>\<open>Uint8Array\<close> or a \<^verbatim>\<open>Buffer\<close>) are
  byte lists; a JavaScript string is a \<^typ>\<open>string\<close>. A JavaScript number that may
  be \<^verbatim>\<open>undefined\<close> or \<^verbatim>\<open>NaN\<close> is an \<^typ>\<open>int option\<close>.
\<close>

type_synonym bytes = "char list"

text \<open>
  \<^verbatim>\<open>chunk.slice(start, end)\<close>: a negative index counts from the end, every index
  is clamped to the buffer, a missing \<^verbatim>\<open>end\<close> is the length, and an empty
  range gives the empty buffer.
\<close>

definition relIndex :: "int \<Rightarrow> int \<Rightarrow> int" where
  "relIndex len i = (if i < 0 then max (len + i) 0 else min i len)"

definition slice :: "bytes \<Rightarrow> int \<Rightarrow> int option \<Rightarrow> bytes" where
  "slice b start fin =
     (let len = int (length b);
          k = relIndex len start;
          final = (case fin of None \<Rightarrow> len | Some e \<Rightarrow> relIndex len e)
      in take (nat (final - k)) (drop (nat k) b))"

text \<open>
  \<^verbatim>\<open>.replace(/\r\n?|\n\r/g, '\n')\<close> of \<^verbatim>\<open>getSlice\<close>: the string is scanned from
  the left; at a carriage return the first alternative matches, with the line feed
  after it when there is one; at a line feed the second alternative matches when a
  carriage return follows; every match becomes one line feed.
\<close>

abbreviation CR :: char where "CR \<equiv> CHR 0x0D"
abbreviation LF :: char where "LF \<equiv> CHR 0x0A"

fun normalizeNewlines :: "string \<Rightarrow> string" where
  "normalizeNewlines [] = []"
| "normalizeNewlines [c] = (if c = CR then [LF] else [c])"
| "normalizeNewlines (c # d # cs) =
     (if c = CR then
        (if d = LF then LF # normalizeNewlines cs else LF # normalizeNewlines (d # cs))
      else if c = LF \<and> d = CR then LF # normalizeNewlines cs
      else c # normalizeNewlines (d # cs))"

section \<open>Tokens\<close>

text \<open>
  \<^verbatim>\<open>Token.ts\<close> is not part of the sources at hand. A member token is an object
  with a kind, a name and a namespace; \<open>origin\<close> is its identity when the parser
  created it with \<^verbatim>\<open>new\<close> (the serial number of the allocation), and \<open>None\<close>
  for a token owned by the configuration. \<open>ns = None\<close> is \<^verbatim>\<open>Namespace.unknown\<close>.
\<close>

datatype TokenKind = OpenKind | EmittedKind | CloseKind | StringKind

record MemberToken =
  origin :: "nat option"
  kind :: TokenKind
  name :: string
  ns :: "nat option"

text \<open>
  What a slot of the output buffer (\<^verbatim>\<open>TokenBuffer\<close>) or a table read can hold:
  a member token, a decoded string, \<^verbatim>\<open>SpecialToken.comment\<close>, a property
  inherited from \<^verbatim>\<open>Object.prototype\<close>, or \<^verbatim>\<open>undefined\<close>.
\<close>

datatype slot =
    Member MemberToken
  | Str string
  | SpecialComment
  | ProtoProp string
  | Undefined

text \<open>
  A JavaScript array of slots: its elements by index (a negative index is an
  ordinary property and does not count for the length) and its \<^verbatim>\<open>length\<close>.
\<close>

record TokenBuffer =
  elems :: "int \<Rightarrow> slot"
  alen :: nat

definition emptyBuffer :: TokenBuffer where
  "emptyBuffer = \<lparr> elems = (\<lambda>_. Undefined), alen = 0 \<rparr>"

definition setElem :: "TokenBuffer \<Rightarrow> int \<Rightarrow> slot \<Rightarrow> TokenBuffer" where
  "setElem b i v =
     \<lparr> elems = (elems b)(i := v),
       alen = (if 0 \<le> i then max (alen b) (nat i + 1) else alen b) \<rparr>"

text \<open>The tokens a consumer reads from a buffer: indices \<open>0\<close> to \<open>n - 1\<close>.\<close>

definition tokensUpTo :: "TokenBuffer \<Rightarrow> int \<Rightarrow> slot list" where
  "tokensUpTo b n = map (elems b) [0..n - 1]"

section \<open>TokenChunk and its free list\<close>

record Namespace =
  id_ns :: nat
  defaultPrefix :: string
  uri :: string
  isSpecial :: bool

record TokenChunk =
  length_tc :: int
  buffer :: TokenBuffer
  next_tc :: "nat option"
  namespaceList_tc :: "(nat \<Rightarrow> Namespace option) option"

text \<open>
  The objects shared by every parser of the process: the \<^verbatim>\<open>TokenChunk\<close> objects by
  address, the static \<^verbatim>\<open>TokenChunk.first\<close>, the number of chunks created so far
  (the address \<^verbatim>\<open>new TokenChunk()\<close> takes next), and the number of member tokens
  created so far with \<^verbatim>\<open>new\<close>.
\<close>

record World =
  chunks :: "nat \<Rightarrow> TokenChunk"
  first :: "nat option"
  chunkCount :: nat
  tokenSerial :: nat

definition blankChunk :: TokenChunk where
  "blankChunk = \<lparr> length_tc = 0, buffer = emptyBuffer, next_tc = None,
                  namespaceList_tc = None \<rparr>"

definition allocate :: "TokenBuffer \<Rightarrow> World \<Rightarrow> nat \<times> World" where
  "allocate buf w =
     (let (c, w1) =
            (case first w of
               Some c \<Rightarrow> (c, w\<lparr> first := next_tc (chunks w c) \<rparr>)
             | None \<Rightarrow> (chunkCount w,
                 w\<lparr> chunks := (chunks w)(chunkCount w := blankChunk),
                    chunkCount := chunkCount w + 1 \<rparr>))
      in (c, w1\<lparr> chunks := (chunks w1)(c :=
                   \<lparr> length_tc = int (alen buf), buffer = buf, next_tc = None,
                     namespaceList_tc = None \<rparr>) \<rparr>))"

text \<open>\<^verbatim>\<open>TokenChunk.allocate()\<close>: the default argument is a new empty array.\<close>

definition allocate0 :: "World \<Rightarrow> nat \<times> World" where
  "allocate0 w = allocate emptyBuffer w"

definition free :: "nat \<Rightarrow> World \<Rightarrow> World" where
  "free c w =
     w\<lparr> chunks := (chunks w)(c := (chunks w c)\<lparr> next_tc := first w \<rparr>),
        first := Some c \<rparr>"

section \<open>The symbol table\<close>

text \<open>
  \<^verbatim>\<open>ParserConfig\<close>, \<^verbatim>\<open>ParserNamespace\<close> and \<^verbatim>\<open>InternalToken\<close> are not part of
  the sources at hand; the records below hold the fields the parser reads. A list of
  a token space is an object with an identity (the parser compares lists with
  \<^verbatim>\<open>==\<close>) and entries by index; an index without an entry reads \<^verbatim>\<open>undefined\<close>.
\<close>

record InternalToken =
  id_it :: nat
  name_it :: string
  buf_it :: bytes
  open_it :: MemberToken
  close_it :: MemberToken
  string_it :: MemberToken

record ParserNamespace =
  id_pn :: int
  base :: Namespace

record TokenList =
  listId :: nat
  items :: "int \<Rightarrow> InternalToken option"

record ParserConfig =
  elementSpaceList :: TokenList
  attributeSpaceList :: TokenList
  prefixSpaceList :: TokenList
  uriSpaceList :: TokenList
  namespaceList_pc :: "ParserNamespace option list"
  maxNamespace :: nat

definition arrayGet :: "'a option list \<Rightarrow> int \<Rightarrow> 'a option" where
  "arrayGet xs i = (if 0 \<le> i \<and> nat i < length xs then xs ! nat i else None)"

datatype CodeType =
    OPEN_ELEMENT_ID | CLOSE_ELEMENT_ID | ELEMENT_EMITTED | CLOSED_ELEMENT_EMITTED
  | ATTRIBUTE_ID | PREFIX_ID | XMLNS_ID | NAMESPACE_ID
  | TEXT_START_OFFSET | VALUE_START_OFFSET | COMMENT_START_OFFSET | UNKNOWN_START_OFFSET
  | UNKNOWN_OPEN_ELEMENT_END_OFFSET | UNKNOWN_CLOSE_ELEMENT_END_OFFSET
  | UNKNOWN_ATTRIBUTE_END_OFFSET | VALUE_END_OFFSET | TEXT_END_OFFSET
  | UNKNOWN_PREFIX_END_OFFSET | UNKNOWN_XMLNS_END_OFFSET | UNKNOWN_URI_END_OFFSET
  | COMMENT_END_OFFSET | PARTIAL_LEN | PARTIAL_URI_ID | PARTIAL_PREFIX_ID
  | PARTIAL_ATTRIBUTE_ID | PARTIAL_ELEMENT_ID | OTHER_CODE

datatype ErrorType = OK | Malformed nat

text \<open>
  The functions of the missing modules are parameters of the model: the byte
  codec of \<^verbatim>\<open>Buffer.ts\<close>, the numbering of the \<^verbatim>\<open>CodeType\<close> enumeration, and
  the operations of the symbol table that change it.
\<close>

record Env =
  decodeArray :: "bytes \<Rightarrow> string"
  encodeArray :: "string \<Rightarrow> bytes"
  concatArray :: "bytes list \<Rightarrow> int option \<Rightarrow> bytes"
  codeType :: "nat \<Rightarrow> CodeType"
  addPrefix :: "ParserConfig \<Rightarrow> string \<Rightarrow> InternalToken \<times> ParserConfig"
  bindNamespace :: "ParserConfig \<Rightarrow> Namespace \<Rightarrow> string \<Rightarrow> int \<times> ParserConfig"
  updateNamespaces :: "ParserConfig \<Rightarrow> ParserConfig"
  addElement :: "ParserNamespace \<Rightarrow> string \<Rightarrow> InternalToken"

text \<open>
  Modelled from the spec: \<^verbatim>\<open>MemberToken.resolve(ns)\<close> of the missing
  \<^verbatim>\<open>Token.ts\<close>. The forward patch replaces a name "with the same name bound to
  N": the token keeps its kind and name and belongs to the namespace.
\<close>

definition resolveToken :: "MemberToken \<Rightarrow> ParserNamespace \<Rightarrow> MemberToken" where
  "resolveToken m n = m\<lparr> origin := None, ns := Some (id_ns (base n)) \<rparr>"

text \<open>
  Modelled from the spec: the \<^verbatim>\<open>emitted\<close> and \<^verbatim>\<open>close\<close> properties of an
  \<^verbatim>\<open>OpenToken\<close> (missing \<^verbatim>\<open>Token.ts\<close>), the "appropriate terminal token" of the
  element: the companion token of the same name and namespace. Any other object
  has no such property (the read gives \<^verbatim>\<open>undefined\<close>), and reading a property of
  \<^verbatim>\<open>undefined\<close> throws.
\<close>

datatype error = TypeError

definition companion :: "TokenKind \<Rightarrow> slot \<Rightarrow> error + slot" where
  "companion k v =
     (case v of
        Undefined \<Rightarrow> Inl TypeError
      | Member m \<Rightarrow> Inr (if kind m = OpenKind then Member (m\<lparr> kind := k \<rparr>) else Undefined)
      | _ \<Rightarrow> Inr Undefined)"

text \<open>
  Calling \<^verbatim>\<open>resolve\<close> on a slot: only a member token has the method; the spec
  says nothing of a call without a namespace, which is taken to throw.
\<close>

definition resolveSlot :: "slot \<Rightarrow> ParserNamespace option \<Rightarrow> error + slot" where
  "resolveSlot v n =
     (case (v, n) of
        (Member m, Some pn) \<Rightarrow> Inr (Member (resolveToken m pn))
      | _ \<Rightarrow> Inl TypeError)"

text \<open>
  The tables of unknown names are object literals (\<^verbatim>\<open>= {}\<close>): a read of a key the
  table does not own goes on to \<^verbatim>\<open>Object.prototype\<close>, whose properties are all
  truthy.
\<close>

definition objectPrototypeKeys :: "string list" where
  "objectPrototypeKeys =
     [''constructor'', ''hasOwnProperty'', ''isPrototypeOf'', ''propertyIsEnumerable'',
      ''toLocaleString'', ''toString'', ''valueOf'', ''__proto__'',
      ''__defineGetter__'', ''__defineSetter__'', ''__lookupGetter__'',
      ''__lookupSetter__'']"

definition tableGet :: "(string \<rightharpoonup> MemberToken) \<Rightarrow> string \<Rightarrow> slot" where
  "tableGet tbl nm =
     (case tbl nm of
        Some m \<Rightarrow> Member m
      | None \<Rightarrow> if nm \<in> set objectPrototypeKeys then ProtoProp nm else Undefined)"

section \<open>The parser\<close>

datatype NativeCall = NativeParse bytes | NativeSetPrefix nat | NativeDestroy

text \<open>
  \<^verbatim>\<open>Parser\<close> extends \<^verbatim>\<open>stream.Transform\<close>, so it carries the listeners of its
  consumer. \<^verbatim>\<open>emit('error', err)\<close> throws \<open>err\<close> when no listener is attached, and
  lets through what a listener throws; the listener \<^verbatim>\<open>parseSync\<close> attaches is
  \<^verbatim>\<open>(err) => { throw(err); }\<close>.
\<close>

datatype ErrorListener = NoErrorListener | ListenerThrows | ListenerReturns

text \<open>
  The fields of class \<^verbatim>\<open>Parser\<close>. \<^verbatim>\<open>parseCodeBuffer\<close> copies \<open>partStart\<close>,
  \<open>partialLen\<close>, \<open>latestElement\<close>, \<open>latestPrefix\<close>, \<open>latestNamespace\<close>,
  \<open>elementStart\<close> and \<open>unknownCount\<close> into local variables and writes them back
  when it returns; the model works on the fields. The last eight fields are the
  state of one run of \<^verbatim>\<open>parseCodeBuffer\<close>: the buffer of the current token chunk
  (mutated in place), the local \<open>tokenNum\<close>, the cached lists of the symbol table,
  and the number of member tokens created so far. \<open>errorListener\<close> and
  \<open>dataListener\<close> are the listeners of the stream: the second is what the consumer
  does to the shared objects when the \<^verbatim>\<open>flush\<close> callback hands it the chunk at an
  address (nothing, when it only reads the chunk later).
\<close>

record Parser =
  config :: ParserConfig
  nativeCalls :: "NativeCall list"
  latestElement :: slot
  latestPrefix :: "InternalToken option"
  latestNamespace :: "ParserNamespace option"
  chunk :: bytes
  namespaceList :: "nat \<Rightarrow> Namespace option"
  namespacesChanged :: bool
  partList :: "bytes list option"
  partListTotalByteLen :: "int option"
  partStart :: int
  partialLen :: "int option"
  tokenChunk :: nat
  elementStart :: int
  prefixBuffer :: "int \<Rightarrow> InternalToken option"
  namespaceBuffer :: "int \<Rightarrow> ParserNamespace option"
  unknownElementTbl :: "string \<rightharpoonup> MemberToken"
  unknownAttributeTbl :: "string \<rightharpoonup> MemberToken"
  unknownOffsetList :: "nat \<Rightarrow> int option"
  unknownCount :: nat
  hasError :: bool
  errorListener :: ErrorListener
  dataListener :: "nat \<Rightarrow> World \<Rightarrow> World"
  tokenBuffer :: TokenBuffer
  tokenNum :: int
  elementList :: TokenList
  attributeList :: TokenList
  prefixList :: TokenList
  uriList :: TokenList
  partialList :: TokenList
  serial :: nat

subsection \<open>Slices of the input\<close>

definition storeSlice :: "int \<Rightarrow> int option \<Rightarrow> Parser \<Rightarrow> Parser" where
  "storeSlice start fin p =
     (let parts = (case partList p of None \<Rightarrow> [] | Some ps \<Rightarrow> ps)
      in if fin \<noteq> Some 0 then
           p\<lparr> partList := Some (parts @ [slice (chunk p) start fin]),
              partListTotalByteLen :=
                map_option
                  (\<lambda>t. t + ((case fin of None \<Rightarrow> int (length (chunk p)) | Some e \<Rightarrow> e) - start))
                  (partListTotalByteLen p) \<rparr>
         else p\<lparr> partList := Some parts \<rparr>)"

definition buildSlice :: "Env \<Rightarrow> int \<Rightarrow> int option \<Rightarrow> Parser \<Rightarrow> string \<times> Parser" where
  "buildSlice E start fin p =
     (let p1 = storeSlice start fin p;
          result = decodeArray E
            (concatArray E (case partList p1 of None \<Rightarrow> [] | Some ps \<Rightarrow> ps)
               (partListTotalByteLen p1))
      in (result, p1\<lparr> partList := None, partListTotalByteLen := Some 0 \<rparr>))"

text \<open>
  \<^verbatim>\<open>decodeArray(this.chunk, start, end)\<close> is modelled from the spec: "the token's
  bytes are the single slice \<open>[start, end)\<close> of the current buffer".
\<close>

definition getSlice :: "Env \<Rightarrow> int \<Rightarrow> int option \<Rightarrow> Parser \<Rightarrow> string \<times> Parser" where
  "getSlice E start fin p =
     (let (r, p1) =
            (case partList p of
               Some ps \<Rightarrow> buildSlice E start fin p
             | None \<Rightarrow> (decodeArray E (slice (chunk p) start fin), p))
      in (normalizeNewlines r, p1))"

subsection \<open>Forward patch of a prefix\<close>

definition resolveAt ::
  "ParserNamespace \<Rightarrow> InternalToken option \<Rightarrow> int \<Rightarrow> Parser \<Rightarrow> int \<Rightarrow> Parser" where
  "resolveAt n prefix es p pos =
     (if prefixBuffer p pos = prefix then
        (case elems (tokenBuffer p) (pos + es) of
           Member m \<Rightarrow>
             p\<lparr> tokenBuffer := setElem (tokenBuffer p) (pos + es) (Member (resolveToken m n)),
                namespaceBuffer := (namespaceBuffer p)(pos := None) \<rparr>
         | _ \<Rightarrow> p)
      else p)"

definition resolve ::
  "int \<Rightarrow> int \<Rightarrow> InternalToken option \<Rightarrow> int \<Rightarrow> Parser \<Rightarrow> error + Parser" where
  "resolve es tn prefix idNamespace p =
     (case arrayGet (namespaceList_pc (config p)) idNamespace of
        None \<Rightarrow> Inl TypeError
      | Some n \<Rightarrow>
          (case (if defaultPrefix (base n) \<noteq> [] then Inr n
                 else (case prefix of
                         None \<Rightarrow> Inl TypeError
                       | Some t \<Rightarrow> Inr (n\<lparr> base := (base n)\<lparr> defaultPrefix := name_it t \<rparr> \<rparr>))) of
             Inl e \<Rightarrow> Inl e
           | Inr n1 \<Rightarrow>
               Inr (foldl (resolveAt n1 prefix es)
                      (p\<lparr> config := (config p)\<lparr> namespaceList_pc :=
                                      (namespaceList_pc (config p))[nat idNamespace := Some n1] \<rparr>,
                          namespaceList := (namespaceList p)(id_ns (base n1) := Some (base n1)),
                          namespacesChanged := True \<rparr>)
                      [0..tn - es])))"

subsection \<open>The cases of \<^verbatim>\<open>parseCodeBuffer\<close>\<close>

definition bindE :: "error + 'a \<Rightarrow> ('a \<Rightarrow> error + 'b) \<Rightarrow> error + 'b" where
  "bindE r f = (case r of Inl e \<Rightarrow> Inl e | Inr x \<Rightarrow> f x)"

fun foldE :: "('s \<Rightarrow> 'a \<Rightarrow> error + 's) \<Rightarrow> 'a list \<Rightarrow> 's \<Rightarrow> error + 's" where
  "foldE f [] s = Inr s"
| "foldE f (x # xs) s = bindE (f s x) (foldE f xs)"

text \<open>\<^verbatim>\<open>tokenBuffer[++tokenNum] = v\<close>\<close>

definition push :: "slot \<Rightarrow> Parser \<Rightarrow> Parser" where
  "push v p =
     p\<lparr> tokenNum := tokenNum p + 1,
        tokenBuffer := setElem (tokenBuffer p) (tokenNum p + 1) v \<rparr>"

definition openElementId :: "int \<Rightarrow> Parser \<Rightarrow> error + Parser" where
  "openElementId code p =
     (case items (elementList p) code of
        None \<Rightarrow> Inl TypeError
      | Some t \<Rightarrow>
          (let p1 = push (Member (open_it t)) (p\<lparr> latestElement := Member (open_it t) \<rparr>)
           in Inr (p1\<lparr> prefixBuffer := (prefixBuffer p1)(0 := latestPrefix p1),
                       elementStart := tokenNum p1 \<rparr>)))"

definition closeElementId :: "int \<Rightarrow> Parser \<Rightarrow> error + Parser" where
  "closeElementId code p =
     (case items (elementList p) code of
        None \<Rightarrow> Inl TypeError
      | Some t \<Rightarrow> Inr (push (Member (close_it t)) p))"

definition resolveUnknownAt :: "Parser \<Rightarrow> nat \<Rightarrow> error + Parser" where
  "resolveUnknownAt p pos =
     (case unknownOffsetList p pos of
        None \<Rightarrow> Inr p
      | Some offset \<Rightarrow>
          (case namespaceBuffer p offset of
             None \<Rightarrow> Inr p
           | Some n \<Rightarrow>
               bindE (resolveSlot (elems (tokenBuffer p) (offset + elementStart p))
                        (arrayGet (namespaceList_pc (config p)) (id_pn n)))
                 (\<lambda>v. Inr (p\<lparr> tokenBuffer :=
                                setElem (tokenBuffer p) (offset + elementStart p) v \<rparr>))))"

definition elementEmitted :: "CodeType \<Rightarrow> Parser \<Rightarrow> error + Parser" where
  "elementEmitted k p =
     bindE (if unknownCount p \<noteq> 0 then
              bindE (foldE resolveUnknownAt [0..<unknownCount p] p)
                (\<lambda>p1. Inr (p1\<lparr> latestElement := elems (tokenBuffer p1) (elementStart p1),
                                unknownCount := 0 \<rparr>))
            else Inr p)
       (\<lambda>p2. bindE (companion (if k = ELEMENT_EMITTED then EmittedKind else CloseKind)
                       (latestElement p2))
                (\<lambda>v. Inr ((push v p2)\<lparr> elementStart := - 1 \<rparr>)))"

definition attributeId :: "int \<Rightarrow> Parser \<Rightarrow> error + Parser" where
  "attributeId code p =
     (case items (attributeList p) code of
        None \<Rightarrow> Inl TypeError
      | Some t \<Rightarrow>
          (let p1 = push (Member (string_it t)) p
           in Inr (p1\<lparr> prefixBuffer := (prefixBuffer p1)(tokenNum p1 - elementStart p1 :=
                         (case latestPrefix p1 of
                            Some x \<Rightarrow> Some x
                          | None \<Rightarrow> prefixBuffer p1 0)) \<rparr>)))"

definition xmlnsId :: "int \<Rightarrow> Parser \<Rightarrow> Parser" where
  "xmlnsId code p = p\<lparr> latestPrefix := items (prefixList p) code \<rparr>"

text \<open>\<^verbatim>\<open>code >> 14\<close> and \<^verbatim>\<open>code & 0x3fff\<close>, then the case of \<^verbatim>\<open>XMLNS_ID\<close>.\<close>

definition prefixId :: "int \<Rightarrow> Parser \<Rightarrow> Parser" where
  "prefixId code p =
     xmlnsId (code mod 2 ^ 14)
       (p\<lparr> latestNamespace := arrayGet (namespaceList_pc (config p)) (code div 2 ^ 14) \<rparr>)"

definition namespaceId :: "int \<Rightarrow> Parser \<Rightarrow> error + Parser" where
  "namespaceId code p =
     bindE (resolve (elementStart p) (tokenNum p) (latestPrefix p) code p)
       (\<lambda>p1. Inr (p1\<lparr> latestPrefix := None \<rparr>))"

definition startOffset :: "int \<Rightarrow> Parser \<Rightarrow> Parser" where
  "startOffset code p = p\<lparr> partStart := code \<rparr>"

text \<open>\<^verbatim>\<open>new OpenToken(name, Namespace.unknown)\<close> and \<^verbatim>\<open>new StringToken(...)\<close>\<close>

definition newToken :: "TokenKind \<Rightarrow> string \<Rightarrow> Parser \<Rightarrow> MemberToken \<times> Parser" where
  "newToken k nm p =
     (\<lparr> origin = Some (serial p), kind = k, name = nm, ns = None \<rparr>,
      p\<lparr> serial := serial p + 1 \<rparr>)"

definition unknownOpenElementEnd :: "Env \<Rightarrow> int \<Rightarrow> Parser \<Rightarrow> Parser" where
  "unknownOpenElementEnd E code p =
     (let (nm, p1) = getSlice E (partStart p) (Some code) p;
          found = tableGet (unknownElementTbl p1) nm;
          p2 = (if found = Undefined then
                  (let (m, q) = newToken OpenKind nm p1
                   in q\<lparr> latestElement := Member m,
                         unknownElementTbl := (unknownElementTbl q)(nm \<mapsto> m) \<rparr>)
                else p1\<lparr> latestElement := found \<rparr>);
          p3 = push (latestElement p2) p2
      in p3\<lparr> prefixBuffer := (prefixBuffer p3)(0 := latestPrefix p3),
             namespaceBuffer := (namespaceBuffer p3)(0 := latestNamespace p3),
             elementStart := tokenNum p3,
             unknownOffsetList := (unknownOffsetList p3)(0 := Some 0),
             unknownCount := 1,
             partStart := - 1 \<rparr>)"

definition unknownCloseElementEnd :: "Env \<Rightarrow> int \<Rightarrow> Parser \<Rightarrow> error + Parser" where
  "unknownCloseElementEnd E code p =
     (let (nm, p1) = getSlice E (partStart p) (Some code) p
      in bindE (case latestNamespace p1 of
                  Some n \<Rightarrow> Inr (Member (close_it (addElement E n nm)))
                | None \<Rightarrow> companion CloseKind (tableGet (unknownElementTbl p1) nm))
           (\<lambda>v. Inr ((push v p1)\<lparr> partStart := - 1 \<rparr>)))"

definition unknownAttributeEnd :: "Env \<Rightarrow> int \<Rightarrow> Parser \<Rightarrow> Parser" where
  "unknownAttributeEnd E code p =
     (let (nm, p1) = getSlice E (partStart p) (Some code) p;
          found = tableGet (unknownAttributeTbl p1) nm;
          (token, p2) =
            (if found = Undefined then
               (let (m, q) = newToken StringKind nm p1
                in (Member m, q\<lparr> unknownAttributeTbl := (unknownAttributeTbl q)(nm \<mapsto> m) \<rparr>))
             else (found, p1));
          p3 = push token p2;
          pos = tokenNum p3 - elementStart p3
      in p3\<lparr> prefixBuffer := (prefixBuffer p3)(pos := latestPrefix p3),
             namespaceBuffer := (namespaceBuffer p3)(pos := latestNamespace p3),
             unknownOffsetList := (unknownOffsetList p3)(unknownCount p3 := Some pos),
             unknownCount := unknownCount p3 + 1,
             partStart := - 1 \<rparr>)"

definition valueEnd :: "Env \<Rightarrow> int \<Rightarrow> Parser \<Rightarrow> Parser" where
  "valueEnd E code p =
     (let (s, p1) = getSlice E (partStart p) (Some code) p
      in (push (Str s) p1)\<lparr> partStart := - 1 \<rparr>)"

definition refreshLists :: "Parser \<Rightarrow> Parser" where
  "refreshLists p =
     p\<lparr> elementList := elementSpaceList (config p),
        attributeList := attributeSpaceList (config p),
        prefixList := prefixSpaceList (config p),
        uriList := uriSpaceList (config p) \<rparr>"

text \<open>
  \<^verbatim>\<open>new Namespace(name, uri, config.maxNamespace + 1)\<close>; what
  \<^verbatim>\<open>config.bindNamespace\<close> does with the parser it is given is not modelled.
\<close>

definition unknownUriEnd :: "Env \<Rightarrow> int \<Rightarrow> Parser \<Rightarrow> error + Parser" where
  "unknownUriEnd E code p =
     (let (u, p1) = getSlice E (partStart p) (Some code) p
      in (case latestPrefix p1 of
            None \<Rightarrow> Inl TypeError
          | Some t \<Rightarrow>
              (let nsNew = \<lparr> id_ns = maxNamespace (config p1) + 1, defaultPrefix = name_it t,
                             uri = u, isSpecial = False \<rparr>;
                   (idNamespace, cfg) = bindNamespace E (config p1) nsNew (name_it t)
               in bindE (resolve (elementStart p1) (tokenNum p1) (latestPrefix p1) idNamespace
                           (p1\<lparr> config := cfg \<rparr>))
                    (\<lambda>p2. Inr ((refreshLists (p2\<lparr> latestPrefix := None \<rparr>))\<lparr> partStart := - 1 \<rparr>)))))"

definition unknownPrefixEnd :: "Env \<Rightarrow> int \<Rightarrow> Parser \<Rightarrow> Parser" where
  "unknownPrefixEnd E code p =
     (let (nm, p1) = getSlice E (partStart p) (Some code) p;
          (t, cfg) = addPrefix E (config p1) nm
      in (refreshLists
            (p1\<lparr> config := cfg, latestPrefix := Some t,
                 nativeCalls := nativeCalls p1 @ [NativeSetPrefix (id_it t)] \<rparr>))
         \<lparr> partStart := - 1 \<rparr>)"

definition commentEnd :: "Env \<Rightarrow> int \<Rightarrow> Parser \<Rightarrow> Parser" where
  "commentEnd E code p =
     (let p1 = push SpecialComment p;
          (s, p2) = getSlice E (partStart p1) (Some code) p1
      in (push (Str s) p2)\<lparr> partStart := - 1 \<rparr>)"

definition partialLenCode :: "int \<Rightarrow> Parser \<Rightarrow> Parser" where
  "partialLenCode code p = p\<lparr> partialLen := Some code \<rparr>"

text \<open>
  The four \<^verbatim>\<open>PARTIAL_*_ID\<close> cases fall through into each other; \<open>k\<close> says where
  the chain is entered.
\<close>

definition partialId :: "CodeType \<Rightarrow> int \<Rightarrow> Parser \<Rightarrow> error + Parser" where
  "partialId k code p =
     (let pl1 = (if k = PARTIAL_URI_ID then uriList p else partialList p);
          pl2 = (if (k = PARTIAL_URI_ID \<or> k = PARTIAL_PREFIX_ID)
                    \<and> listId pl1 = listId (elementList p)
                 then prefixList p else pl1);
          pl3 = (if (k = PARTIAL_URI_ID \<or> k = PARTIAL_PREFIX_ID \<or> k = PARTIAL_ATTRIBUTE_ID)
                    \<and> listId pl2 = listId (elementList p)
                 then attributeList p else pl2)
      in (case items pl3 code of
            None \<Rightarrow> Inl TypeError
          | Some t \<Rightarrow>
              Inr (p\<lparr> partList := Some [slice (buf_it t) 0 (partialLen p)],
                      partListTotalByteLen := partialLen p,
                      partialList := elementList p \<rparr>)))"

definition step :: "Env \<Rightarrow> CodeType \<times> int \<Rightarrow> Parser \<Rightarrow> error + Parser" where
  "step E kc p =
     (case kc of (k, code) \<Rightarrow>
        (case k of
           OPEN_ELEMENT_ID \<Rightarrow> openElementId code p
         | CLOSE_ELEMENT_ID \<Rightarrow> closeElementId code p
         | ELEMENT_EMITTED \<Rightarrow> elementEmitted k p
         | CLOSED_ELEMENT_EMITTED \<Rightarrow> elementEmitted k p
         | ATTRIBUTE_ID \<Rightarrow> attributeId code p
         | PREFIX_ID \<Rightarrow> Inr (prefixId code p)
         | XMLNS_ID \<Rightarrow> Inr (xmlnsId code p)
         | NAMESPACE_ID \<Rightarrow> namespaceId code p
         | TEXT_START_OFFSET \<Rightarrow> Inr (startOffset code p)
         | VALUE_START_OFFSET \<Rightarrow> Inr (startOffset code p)
         | COMMENT_START_OFFSET \<Rightarrow> Inr (startOffset code p)
         | UNKNOWN_START_OFFSET \<Rightarrow> Inr (startOffset code p)
         | UNKNOWN_OPEN_ELEMENT_END_OFFSET \<Rightarrow> Inr (unknownOpenElementEnd E code p)
         | UNKNOWN_CLOSE_ELEMENT_END_OFFSET \<Rightarrow> unknownCloseElementEnd E code p
         | UNKNOWN_ATTRIBUTE_END_OFFSET \<Rightarrow> Inr (unknownAttributeEnd E code p)
         | VALUE_END_OFFSET \<Rightarrow> Inr (valueEnd E code p)
         | TEXT_END_OFFSET \<Rightarrow> Inr (valueEnd E code p)
         | UNKNOWN_PREFIX_END_OFFSET \<Rightarrow> Inr (unknownPrefixEnd E code p)
         | UNKNOWN_XMLNS_END_OFFSET \<Rightarrow> Inr (unknownPrefixEnd E code p)
         | UNKNOWN_URI_END_OFFSET \<Rightarrow> unknownUriEnd E code p
         | COMMENT_END_OFFSET \<Rightarrow> Inr (commentEnd E code p)
         | PARTIAL_LEN \<Rightarrow> Inr (partialLenCode code p)
         | PARTIAL_URI_ID \<Rightarrow> partialId k code p
         | PARTIAL_PREFIX_ID \<Rightarrow> partialId k code p
         | PARTIAL_ATTRIBUTE_ID \<Rightarrow> partialId k code p
         | PARTIAL_ELEMENT_ID \<Rightarrow> partialId k code p
         | OTHER_CODE \<Rightarrow> Inr p))"

definition runCodes :: "Env \<Rightarrow> (CodeType \<times> int) list \<Rightarrow> Parser \<Rightarrow> error + Parser" where
  "runCodes E cs p = foldE (\<lambda>q kc. step E kc q) cs p"

subsection \<open>The code buffer\<close>

text \<open>
  The code buffer is a \<^verbatim>\<open>Uint32Array\<close>: slot 0 is the number of codes, the codes
  follow. A read past the end gives \<^verbatim>\<open>undefined\<close>, which the bit operations take
  as 0. \<^verbatim>\<open>code & TOKEN.MASK\<close> is the kind; \<^verbatim>\<open>code >>= TOKEN.SHIFT\<close> converts
  to a signed 32-bit integer and shifts with the sign.
\<close>

definition codeAt :: "32 word list \<Rightarrow> nat \<Rightarrow> 32 word" where
  "codeAt cb i = (if i < length cb then cb ! i else 0)"

definition unpack :: "Env \<Rightarrow> 32 word \<Rightarrow> CodeType \<times> int" where
  "unpack E c = (codeType E (unat (c AND 31)), sint c div 2 ^ 5)"

definition codesOf :: "Env \<Rightarrow> 32 word list \<Rightarrow> (CodeType \<times> int) list" where
  "codesOf E cb = map (\<lambda>i. unpack E (codeAt cb i)) [1..<Suc (unat (codeAt cb 0))]"

definition enter :: "World \<Rightarrow> Parser \<Rightarrow> Parser" where
  "enter w p =
     (refreshLists p)
       \<lparr> partialList := elementSpaceList (config p),
         tokenBuffer := buffer (chunks w (tokenChunk p)),
         tokenNum := length_tc (chunks w (tokenChunk p)) - 1,
         serial := tokenSerial w \<rparr>"

definition leave :: "Env \<Rightarrow> bool \<Rightarrow> World \<Rightarrow> Parser \<Rightarrow> Parser \<times> World" where
  "leave E pending w p =
     (let p1 = (if \<not> pending \<and> 0 \<le> partStart p
                then (storeSlice (partStart p) None p)\<lparr> partStart := 0 \<rparr> else p);
          p2 = p1\<lparr> config := updateNamespaces E (config p1) \<rparr>
      in (p2,
          w\<lparr> chunks := (chunks w)(tokenChunk p2 :=
                (chunks w (tokenChunk p2))\<lparr> buffer := tokenBuffer p2,
                                             length_tc := tokenNum p2 + 1 \<rparr>),
             tokenSerial := serial p2 \<rparr>))"

definition parseCodeBuffer ::
  "Env \<Rightarrow> bool \<Rightarrow> 32 word list \<Rightarrow> Parser \<times> World \<Rightarrow> error + Parser \<times> World" where
  "parseCodeBuffer E pending cb s =
     (case s of (p, w) \<Rightarrow>
        bindE (runCodes E (codesOf E cb) (enter w p)) (\<lambda>p1. Inr (leave E pending w p1)))"

subsection \<open>The stream interface\<close>

text \<open>
  The native scanner is outside the model. What it does during one call of
  \<^verbatim>\<open>native.parse\<close> is an input: the contents of the code buffer each time it
  called back \<^verbatim>\<open>parseCodeBuffer(true)\<close>, the contents when it returned, and its
  status, row and column. \<^verbatim>\<open>chunkSize\<close> is \<^verbatim>\<open>Infinity\<close>, so
  \<^verbatim>\<open>len < chunkSize\<close> holds for every input and the loop of the other branch is
  never entered.
\<close>

record ScanResult =
  pendingBuffers :: "32 word list list"
  finalBuffer :: "32 word list"
  status :: ErrorType
  row :: nat
  col :: nat

datatype Input = InString string | InBytes bytes

text \<open>
  What the consumer of the stream observes: an \<^verbatim>\<open>'error'\<close> event carrying a
  \<^verbatim>\<open>ParseError\<close>, that error thrown out of the call, or a call of the \<^verbatim>\<open>flush\<close>
  callback with a chunk (its address and its contents at that moment) or with
  \<^verbatim>\<open>null\<close>. \<^verbatim>\<open>flush(null, this.tokenChunk)\<close> runs the consumer before
  \<^verbatim>\<open>TokenChunk.allocate()\<close> is called: the data listener of \<^verbatim>\<open>parseSync\<close> copies
  the tokens and releases the chunk there.
\<close>

datatype Event =
  ErrorEvent ErrorType nat nat | Thrown ErrorType nat nat | Flushed nat TokenChunk | FlushedNull

text \<open>
  \<^verbatim>\<open>throwError\<close> emits the event first and sets \<open>hasError\<close> after it. When
  \<^verbatim>\<open>emit\<close> throws, the \<^verbatim>\<open>ParseError\<close> leaves \<^verbatim>\<open>throwError\<close> and \<^verbatim>\<open>_transform\<close> as
  an exception (the event \<open>Thrown\<close>) and the assignment is not reached.
\<close>

definition throwError :: "ErrorType \<Rightarrow> nat \<Rightarrow> nat \<Rightarrow> Parser \<Rightarrow> Event list \<times> Parser" where
  "throwError msg r c p =
     (case errorListener p of
        NoErrorListener \<Rightarrow> ([Thrown msg (r + 1) (c + 1)], p)
      | ListenerThrows \<Rightarrow> ([ErrorEvent msg (r + 1) (c + 1), Thrown msg (r + 1) (c + 1)], p)
      | ListenerReturns \<Rightarrow> ([ErrorEvent msg (r + 1) (c + 1)], p\<lparr> hasError := True \<rparr>))"

definition transform ::
  "Env \<Rightarrow> ScanResult \<Rightarrow> Input \<Rightarrow> Parser \<times> World \<Rightarrow> error + Event list \<times> Parser \<times> World" where
  "transform E scan input s =
     (case s of (p, w) \<Rightarrow>
        if hasError p then Inr ([], p, w)
        else
          (let c = (case input of InString str \<Rightarrow> encodeArray E str | InBytes b \<Rightarrow> b);
               p1 = p\<lparr> chunk := c, nativeCalls := nativeCalls p @ [NativeParse c] \<rparr>
           in bindE (foldE (\<lambda>s1 cb. parseCodeBuffer E True cb s1) (pendingBuffers scan) (p1, w))
                (\<lambda>s2. bindE (parseCodeBuffer E False (finalBuffer scan) s2)
                   (\<lambda>(p2, w2).
                      if status scan \<noteq> OK then
                        (let (evs, p3) = throwError (status scan) (row scan) (col scan) p2
                         in Inr (evs, p3, w2))
                      else if elementStart p2 < 0 then
                        (let w3 = (if namespacesChanged p2 then
                                     w2\<lparr> chunks := (chunks w2)(tokenChunk p2 :=
                                           (chunks w2 (tokenChunk p2))
                                             \<lparr> namespaceList_tc := Some (namespaceList p2) \<rparr>) \<rparr>
                                   else w2);
                             (c1, w4) = allocate0 (dataListener p2 (tokenChunk p2) w3)
                         in Inr ([Flushed (tokenChunk p2) (chunks w3 (tokenChunk p2))],
                                 p2\<lparr> tokenChunk := c1 \<rparr>, w4))
                      else Inr ([FlushedNull], p2, w2)))))"

definition flush :: "Parser \<Rightarrow> Event list \<times> Parser" where
  "flush p = ([FlushedNull], p\<lparr> nativeCalls := nativeCalls p @ [NativeDestroy] \<rparr>)"

text \<open>
  A new parser: the field initialisers of the class (the token chunk comes from
  \<^verbatim>\<open>TokenChunk.allocate()\<close>) and the constructor, which copies the special
  namespaces and the one with the default prefix \<^verbatim>\<open>xml\<close> from the configuration.
  No listener is attached yet.
\<close>

definition specialNamespaces :: "ParserNamespace option list \<Rightarrow> nat \<Rightarrow> Namespace option" where
  "specialNamespaces xs =
     foldl (\<lambda>m x. case x of
                    None \<Rightarrow> m
                  | Some n \<Rightarrow>
                      if isSpecial (base n) \<or> defaultPrefix (base n) = ''xml''
                      then m(id_ns (base n) := Some (base n)) else m)
       (\<lambda>_. None) xs"

definition newParser :: "ParserConfig \<Rightarrow> World \<Rightarrow> Parser \<times> World" where
  "newParser cfg w =
     (let (c, w1) = allocate0 w
      in (\<lparr> config = cfg, nativeCalls = [], latestElement = Undefined, latestPrefix = None,
            latestNamespace = None, chunk = [],
            namespaceList = specialNamespaces (namespaceList_pc cfg),
            namespacesChanged = True, partList = None, partListTotalByteLen = Some 0,
            partStart = - 1, partialLen = None, tokenChunk = c, elementStart = - 1,
            prefixBuffer = (\<lambda>_. None), namespaceBuffer = (\<lambda>_. None),
            unknownElementTbl = Map.empty, unknownAttributeTbl = Map.empty,
            unknownOffsetList = (\<lambda>_. None), unknownCount = 0, hasError = False,
            errorListener = NoErrorListener, dataListener = (\<lambda>c w. w),
            tokenBuffer = emptyBuffer, tokenNum = - 1,
            elementList = elementSpaceList cfg, attributeList = attributeSpaceList cfg,
            prefixList = prefixSpaceList cfg, uriList = uriSpaceList cfg,
            partialList = elementSpaceList cfg, serial = tokenSerial w \<rparr>, w1))"

text \<open>
  The listeners \<^verbatim>\<open>parseSync\<close> attaches before it writes: the one for \<^verbatim>\<open>'data'\<close>
  copies the tokens of the chunk and calls \<^verbatim>\<open>chunk.free()\<close>, the one for
  \<^verbatim>\<open>'error'\<close> throws the error.
\<close>

definition attachParseSync :: "Parser \<Rightarrow> Parser" where
  "attachParseSync p = p\<lparr> errorListener := ListenerThrows, dataListener := free \<rparr>"

text \<open>
  What no case of \<^verbatim>\<open>parseCodeBuffer\<close> assigns: the chunk in use, the listeners,
  the error flag and the input buffer.
\<close>

definition streamOf ::
  "Parser \<Rightarrow> nat \<times> ErrorListener \<times> (nat \<Rightarrow> World \<Rightarrow> World) \<times> bool \<times> bytes" where
  "streamOf p = (tokenChunk p, errorListener p, dataListener p, hasError p, chunk p)"

subsection \<open>A stream of writes\<close>

text \<open>
  Several writes in a row: each is one call of \<^verbatim>\<open>_transform\<close> with what the
  scanner did during it; the events are collected in order.
\<close>

fun writeAll ::
  "Env \<Rightarrow> (ScanResult \<times> Input) list \<Rightarrow> Parser \<times> World \<Rightarrow>
     error + Event list \<times> Parser \<times> World" where
  "writeAll E [] s = Inr ([], s)"
| "writeAll E (c # cs) s =
     bindE (transform E (fst c) (snd c) s)
       (\<lambda>r. bindE (writeAll E cs (snd r)) (\<lambda>r2. Inr (fst r @ fst r2, snd r2)))"

text \<open>The tokens a consumer reads from the chunks it is handed.\<close>

definition eventTokens :: "Event \<Rightarrow> slot list" where
  "eventTokens e =
     (case e of Flushed c ch \<Rightarrow> tokensUpTo (buffer ch) (length_tc ch) | _ \<Rightarrow> [])"

definition emittedTokens :: "Event list \<Rightarrow> slot list" where
  "emittedTokens evs = concat (map eventTokens evs)"

section \<open>The contract of the scanner\<close>















section \<open>A split input against the whole input\<close>















section \<open>Sample data\<close>

text \<open>
  One instance of the parameters, for concrete runs: the codec is the identity on
  ASCII, the code types are numbered in the order of the datatype, the symbol
  table knows the prefix \<^verbatim>\<open>a\<close> and the namespace \<^verbatim>\<open>urn:t\<close> (number 1) and no
  element or attribute.
\<close>

definition sampleCodeType :: "nat \<Rightarrow> CodeType" where
  "sampleCodeType n =
     (if n < 26 then
        [OPEN_ELEMENT_ID, CLOSE_ELEMENT_ID, ELEMENT_EMITTED, CLOSED_ELEMENT_EMITTED,
         ATTRIBUTE_ID, PREFIX_ID, XMLNS_ID, NAMESPACE_ID, TEXT_START_OFFSET,
         VALUE_START_OFFSET, COMMENT_START_OFFSET, UNKNOWN_START_OFFSET,
         UNKNOWN_OPEN_ELEMENT_END_OFFSET, UNKNOWN_CLOSE_ELEMENT_END_OFFSET,
         UNKNOWN_ATTRIBUTE_END_OFFSET, VALUE_END_OFFSET, TEXT_END_OFFSET,
         UNKNOWN_PREFIX_END_OFFSET, UNKNOWN_XMLNS_END_OFFSET, UNKNOWN_URI_END_OFFSET,
         COMMENT_END_OFFSET, PARTIAL_LEN, PARTIAL_URI_ID, PARTIAL_PREFIX_ID,
         PARTIAL_ATTRIBUTE_ID, PARTIAL_ELEMENT_ID] ! n
      else OTHER_CODE)"

definition sampleToken :: "string \<Rightarrow> nat \<Rightarrow> nat option \<Rightarrow> InternalToken" where
  "sampleToken nm i n =
     \<lparr> id_it = i, name_it = nm, buf_it = nm,
       open_it = \<lparr> origin = None, kind = OpenKind, name = nm, ns = n \<rparr>,
       close_it = \<lparr> origin = None, kind = CloseKind, name = nm, ns = n \<rparr>,
       string_it = \<lparr> origin = None, kind = StringKind, name = nm, ns = n \<rparr> \<rparr>"

definition sampleConfig :: ParserConfig where
  "sampleConfig =
     \<lparr> elementSpaceList = \<lparr> listId = 0, items = (\<lambda>_. None) \<rparr>,
       attributeSpaceList = \<lparr> listId = 1, items = (\<lambda>_. None) \<rparr>,
       prefixSpaceList =
         \<lparr> listId = 2,
           items = (\<lambda>i. if i = 0 then Some (sampleToken ''a'' 0 None) else None) \<rparr>,
       uriSpaceList = \<lparr> listId = 3, items = (\<lambda>_. None) \<rparr>,
       namespaceList_pc =
         [None,
          Some \<lparr> id_pn = 1,
                 base = \<lparr> id_ns = 1, defaultPrefix = [], uri = ''urn:t'',
                          isSpecial = False \<rparr> \<rparr>],
       maxNamespace = 1 \<rparr>"

definition sampleEnv :: Env where
  "sampleEnv =
     \<lparr> decodeArray = (\<lambda>b. b), encodeArray = (\<lambda>s. s),
       concatArray = (\<lambda>ps n. concat ps),
       codeType = sampleCodeType,
       addPrefix = (\<lambda>c nm. (sampleToken nm 1 None, c)),
       bindNamespace = (\<lambda>c n pf.
          (int (length (namespaceList_pc c)),
           c\<lparr> namespaceList_pc :=
                namespaceList_pc c
                  @ [Some \<lparr> id_pn = int (length (namespaceList_pc c)), base = n \<rparr>],
              maxNamespace := maxNamespace c + 1 \<rparr>)),
       updateNamespaces = (\<lambda>c. c),
       addElement = (\<lambda>n nm. sampleToken nm 0 (Some (id_ns (base n)))) \<rparr>"

definition emptyWorld :: World where
  "emptyWorld =
     \<lparr> chunks = (\<lambda>_. blankChunk), first = None, chunkCount = 0, tokenSerial = 0 \<rparr>"

text \<open>A call of the scanner that ends well and leaves one code buffer.\<close>

definition scanOf :: "32 word list \<Rightarrow> ScanResult" where
  "scanOf cb = \<lparr> pendingBuffers = [], finalBuffer = cb, status = OK, row = 0, col = 0 \<rparr>"

text \<open>Two parsers of one process: the second is created after the first.\<close>

definition sampleParser :: Parser where
  "sampleParser = fst (newParser sampleConfig emptyWorld)"

definition sampleWorld :: World where
  "sampleWorld = snd (newParser sampleConfig emptyWorld)"

definition secondParser :: Parser where
  "secondParser = fst (newParser sampleConfig sampleWorld)"

definition secondWorld :: World where
  "secondWorld = snd (newParser sampleConfig sampleWorld)"

text \<open>
  The scanner stops at the third byte of \<^verbatim>\<open><a<\<close> with an error, after the
  codes of the unknown element name (start offset 1, end offset 2).
\<close>

definition badScan :: ScanResult where
  "badScan =
     \<lparr> pendingBuffers = [], finalBuffer = [2, 43, 76], status = Malformed 1,
       row = 0, col = 2 \<rparr>"

text \<open>
  The write \<^verbatim>\<open><a>text\<close>: an unknown element name at offsets 1 to 2, the element
  emitted, and a text that starts at offset 3 and is still open when the buffer
  ends.
\<close>

definition openText :: "error + Event list \<times> Parser \<times> World" where
  "openText =
     transform sampleEnv (scanOf [4, 43, 76, 2, 104]) (InBytes ''<a>text'')
       (sampleParser, sampleWorld)"

text \<open>An empty write to the first parser, once both parsers exist.\<close>

definition afterFirst :: "error + Event list \<times> Parser \<times> World" where
  "afterFirst = transform sampleEnv (scanOf [0]) (InBytes []) (sampleParser, secondWorld)"

text \<open>
  The document \<^verbatim>\<open><constructor/>\<close> written to each parser in turn: an unknown
  element name at offsets 1 to 12 and the closed element emitted.
\<close>

definition protoFirst :: "error + Event list \<times> Parser \<times> World" where
  "protoFirst =
     transform sampleEnv (scanOf [3, 43, 396, 3]) (InBytes ''<constructor/>'')
       (sampleParser, secondWorld)"

definition protoSecond :: "error + Event list \<times> Parser \<times> World" where
  "protoSecond =
     transform sampleEnv (scanOf [3, 43, 396, 3]) (InBytes ''<constructor/>'')
       (secondParser, snd (snd (projr protoFirst)))"

text \<open>
  The same with the name \<^verbatim>\<open>a\<close>: \<^verbatim>\<open><a/><a/>\<close> to the first parser, then
  \<^verbatim>\<open><a/>\<close> to the second.
\<close>

definition plainFirst :: "error + Event list \<times> Parser \<times> World" where
  "plainFirst =
     transform sampleEnv (scanOf [6, 43, 76, 3, 171, 204, 3]) (InBytes ''<a/><a/>'')
       (sampleParser, secondWorld)"

definition plainSecond :: "error + Event list \<times> Parser \<times> World" where
  "plainSecond =
     transform sampleEnv (scanOf [3, 43, 76, 3]) (InBytes ''<a/>'')
       (secondParser, snd (snd (projr plainFirst)))"

text \<open>
  An empty write to the second parser, after the consumer of the first parser
  released chunk 0.
\<close>

definition afterRelease :: "error + Event list \<times> Parser \<times> World" where
  "afterRelease =
     transform sampleEnv (scanOf [0]) (InBytes [])
       (secondParser, free 0 (snd (snd (projr afterFirst))))"

definition withoutRelease :: "error + Event list \<times> Parser \<times> World" where
  "withoutRelease =
     transform sampleEnv (scanOf [0]) (InBytes [])
       (secondParser, snd (snd (projr afterFirst)))"

text \<open>
  The same write after the release of chunk 0, when the consumer of the second
  parser is that of \<^verbatim>\<open>parseSync\<close> and releases the chunk it is handed.
\<close>

definition syncRelease :: "error + Event list \<times> Parser \<times> World" where
  "syncRelease =
     transform sampleEnv (scanOf [0]) (InBytes [])
       (attachParseSync secondParser, free 0 (snd (snd (projr afterFirst))))"

text \<open>
  \<^verbatim>\<open>parseSync('<a<')\<close> on the first parser, and then the write of the document
  \<^verbatim>\<open><a/>\<close> to the same parser.
\<close>

definition badWrite :: "error + Event list \<times> Parser \<times> World" where
  "badWrite =
     transform sampleEnv badScan (InBytes ''<a<'') (attachParseSync sampleParser, sampleWorld)"

definition afterBad :: "error + Event list \<times> Parser \<times> World" where
  "afterBad =
     transform sampleEnv (scanOf [3, 43, 76, 3]) (InBytes ''<a/>'') (snd (projr badWrite))"

definition openTag :: "error + Event list \<times> Parser \<times> World" where
  "openTag =
     transform sampleEnv (scanOf [2, 43, 76]) (InBytes ''<a'') (sampleParser, sampleWorld)"

definition closedTag :: "error + Event list \<times> Parser \<times> World" where
  "closedTag =
     transform sampleEnv (scanOf [3, 43, 76, 2]) (InBytes ''<a>'') (sampleParser, sampleWorld)"

text \<open>
  The start tag of the spec's example, with the binding of the prefix first,
  \<^verbatim>\<open><a:x xmlns:a="urn:t" a:y="1"/>\<close>, and last, \<^verbatim>\<open><a:x a:y="1" xmlns:a="urn:t"/>\<close>.
  The codes are those of a scanner that knows the prefix \<^verbatim>\<open>a\<close> (number 0) and the
  namespace \<^verbatim>\<open>urn:t\<close> (number 1): a prefix code carries the number of the
  namespace the prefix is bound to at that point, 0 while it is unbound.
\<close>

definition bindingFirstDoc :: bytes where
  "bindingFirstDoc =
     ''<a:x xmlns:a='' @ [CHR 0x22] @ ''urn:t'' @ [CHR 0x22] @ '' a:y='' @ [CHR 0x22] @ ''1''
       @ [CHR 0x22] @ ''/>''"

definition bindingLastDoc :: bytes where
  "bindingLastDoc =
     ''<a:x a:y='' @ [CHR 0x22] @ ''1'' @ [CHR 0x22] @ '' xmlns:a='' @ [CHR 0x22] @ ''urn:t''
       @ [CHR 0x22] @ ''/>''"

definition bindingFirstRun :: "error + Parser" where
  "bindingFirstRun =
     runCodes sampleEnv
       [(PREFIX_ID, 0), (UNKNOWN_START_OFFSET, 3), (UNKNOWN_OPEN_ELEMENT_END_OFFSET, 4),
        (XMLNS_ID, 0), (NAMESPACE_ID, 1),
        (PREFIX_ID, 16384), (UNKNOWN_START_OFFSET, 23), (UNKNOWN_ATTRIBUTE_END_OFFSET, 24),
        (VALUE_START_OFFSET, 26), (VALUE_END_OFFSET, 27), (CLOSED_ELEMENT_EMITTED, 0)]
       (enter sampleWorld (sampleParser\<lparr> chunk := bindingFirstDoc \<rparr>))"

text \<open>The second document decoded up to the code that binds the prefix.\<close>

definition tagBefore :: Parser where
  "tagBefore =
     projr (runCodes sampleEnv
       [(PREFIX_ID, 0), (UNKNOWN_START_OFFSET, 3), (UNKNOWN_OPEN_ELEMENT_END_OFFSET, 4),
        (PREFIX_ID, 0), (UNKNOWN_START_OFFSET, 7), (UNKNOWN_ATTRIBUTE_END_OFFSET, 8),
        (VALUE_START_OFFSET, 10), (VALUE_END_OFFSET, 11), (XMLNS_ID, 0)]
       (enter sampleWorld (sampleParser\<lparr> chunk := bindingLastDoc \<rparr>)))"











section \<open>Properties of the chunk pool\<close>


lemma allocate_free_chunk: "fst (allocate buf (free c w)) = c"
  by (simp add: allocate_def free_def)

text \<open>
  Claim C3. Whatever a chunk holds, once it is released with \<^verbatim>\<open>free\<close> the next
  \<^verbatim>\<open>allocate()\<close> returns that chunk with length zero and with its namespace list
  cleared.
\<close>

theorem C3_free_then_allocate:
  "fst (allocate0 (free c (w\<lparr> chunks := (chunks w)(c := contents) \<rparr>))) = c \<and>
   length_tc (chunks (snd (allocate0 (free c (w\<lparr> chunks := (chunks w)(c := contents) \<rparr>)))) c) = 0 \<and>
   namespaceList_tc (chunks (snd (allocate0 (free c (w\<lparr> chunks := (chunks w)(c := contents) \<rparr>)))) c) = None"
  by (simp add: allocate0_def allocate_def free_def emptyBuffer_def)

section \<open>Newline normalisation\<close>

lemma normalize_no_CR: "CR \<notin> set (normalizeNewlines s)"
  by (induction s rule: normalizeNewlines.induct) auto

lemma normalize_cons:
  "normalizeNewlines (c # s) =
     (if c = CR then LF # normalizeNewlines (if take 1 s = [LF] then drop 1 s else s)
      else if c = LF then LF # normalizeNewlines (if take 1 s = [CR] then drop 1 s else s)
      else c # normalizeNewlines s)"
  by (cases s) auto

lemma getSlice_normalized:
  "fst (getSlice E start fin p) =
     normalizeNewlines
       (case partList p of
          Some ps \<Rightarrow> fst (buildSlice E start fin p)
        | None \<Rightarrow> decodeArray E (slice (chunk p) start fin))"
  by (simp add: getSlice_def split_beta split: option.splits)

text \<open>
  Claim C5. Every string \<^verbatim>\<open>getSlice\<close> returns is the decoded text (of the
  reassembled parts, or of the slice of the current buffer) with its newlines
  normalised: no carriage return is left; a carriage return becomes a line feed and
  takes a line feed that follows it along; a line feed takes a carriage return that
  follows it along; every other character is kept. The text \<^verbatim>\<open>a\r\nb\rc\n\rd\<close>
  becomes \<^verbatim>\<open>a\nb\nc\nd\<close>.
\<close>

theorem C5_newlines_normalised:
  "fst (getSlice E start fin p) =
     normalizeNewlines
       (case partList p of
          Some ps \<Rightarrow> fst (buildSlice E start fin p)
        | None \<Rightarrow> decodeArray E (slice (chunk p) start fin)) \<and>
   CR \<notin> set (fst (getSlice E start fin p)) \<and>
   normalizeNewlines (c # s) =
     (if c = CR then LF # normalizeNewlines (if take 1 s = [LF] then drop 1 s else s)
      else if c = LF then LF # normalizeNewlines (if take 1 s = [CR] then drop 1 s else s)
      else c # normalizeNewlines s) \<and>
   normalizeNewlines
     [CHR ''a'', CR, LF, CHR ''b'', CR, CHR ''c'', LF, CR, CHR ''d''] =
     [CHR ''a'', LF, CHR ''b'', LF, CHR ''c'', LF, CHR ''d'']"
proof -
  have "CR \<notin> set (fst (getSlice E start fin p))"
    by (subst getSlice_normalized) (rule normalize_no_CR)
  moreover have "normalizeNewlines
     [CHR ''a'', CR, LF, CHR ''b'', CR, CHR ''c'', LF, CR, CHR ''d''] =
     [CHR ''a'', LF, CHR ''b'', LF, CHR ''c'', LF, CHR ''d'']"
    by simp
  ultimately show ?thesis
    using getSlice_normalized [of E start fin p] normalize_cons [of c s] by blast
qed

section \<open>Comments\<close>

lemma getSlice_fst_push:
  "fst (getSlice E s f (push v p)) = fst (getSlice E s f p)"
  by (simp add: getSlice_def buildSlice_def storeSlice_def push_def Let_def split: option.splits)

lemma getSlice_tokens:
  "tokenNum (snd (getSlice E s f p)) = tokenNum p"
  "tokenBuffer (snd (getSlice E s f p)) = tokenBuffer p"
  by (simp_all add: getSlice_def buildSlice_def storeSlice_def Let_def split: option.splits)

text \<open>
  Claim C10. The case \<^verbatim>\<open>COMMENT_END_OFFSET\<close> never fails and writes two slots
  after the last token: the comment marker, then the decoded comment string; the
  local \<open>tokenNum\<close> grows by two and no other slot changes.
\<close>

theorem C10_comment_two_slots:
  "step E (COMMENT_END_OFFSET, code) p = Inr (commentEnd E code p) \<and>
   tokenNum (commentEnd E code p) = tokenNum p + 2 \<and>
   elems (tokenBuffer (commentEnd E code p)) =
     (elems (tokenBuffer p))
       (tokenNum p + 1 := SpecialComment,
        tokenNum p + 2 := Str (fst (getSlice E (partStart p) (Some code) p)))"
  apply (simp add: step_def commentEnd_def Let_def split_beta getSlice_fst_push getSlice_tokens)
  apply (simp add: push_def setElem_def add.commute getSlice_tokens)
  done

section \<open>Evaluation of concrete runs\<close>

lemma bindE_simps: "bindE (Inl e) f = Inl e" "bindE (Inr x) f = f x"
  by (simp_all add: bindE_def)

lemma bindE_weak_cong: "r = r' \<Longrightarrow> bindE r f = bindE r' f"
  by simp

lemma step_simps:
  "step E (OPEN_ELEMENT_ID, c) p = openElementId c p"
  "step E (CLOSE_ELEMENT_ID, c) p = closeElementId c p"
  "step E (ELEMENT_EMITTED, c) p = elementEmitted ELEMENT_EMITTED p"
  "step E (CLOSED_ELEMENT_EMITTED, c) p = elementEmitted CLOSED_ELEMENT_EMITTED p"
  "step E (ATTRIBUTE_ID, c) p = attributeId c p"
  "step E (PREFIX_ID, c) p = Inr (prefixId c p)"
  "step E (XMLNS_ID, c) p = Inr (xmlnsId c p)"
  "step E (NAMESPACE_ID, c) p = namespaceId c p"
  "step E (TEXT_START_OFFSET, c) p = Inr (startOffset c p)"
  "step E (VALUE_START_OFFSET, c) p = Inr (startOffset c p)"
  "step E (COMMENT_START_OFFSET, c) p = Inr (startOffset c p)"
  "step E (UNKNOWN_START_OFFSET, c) p = Inr (startOffset c p)"
  "step E (UNKNOWN_OPEN_ELEMENT_END_OFFSET, c) p = Inr (unknownOpenElementEnd E c p)"
  "step E (UNKNOWN_CLOSE_ELEMENT_END_OFFSET, c) p = unknownCloseElementEnd E c p"
  "step E (UNKNOWN_ATTRIBUTE_END_OFFSET, c) p = Inr (unknownAttributeEnd E c p)"
  "step E (VALUE_END_OFFSET, c) p = Inr (valueEnd E c p)"
  "step E (TEXT_END_OFFSET, c) p = Inr (valueEnd E c p)"
  "step E (UNKNOWN_PREFIX_END_OFFSET, c) p = Inr (unknownPrefixEnd E c p)"
  "step E (UNKNOWN_XMLNS_END_OFFSET, c) p = Inr (unknownPrefixEnd E c p)"
  "step E (UNKNOWN_URI_END_OFFSET, c) p = unknownUriEnd E c p"
  "step E (COMMENT_END_OFFSET, c) p = Inr (commentEnd E c p)"
  "step E (PARTIAL_LEN, c) p = Inr (partialLenCode c p)"
  "step E (PARTIAL_URI_ID, c) p = partialId PARTIAL_URI_ID c p"
  "step E (PARTIAL_PREFIX_ID, c) p = partialId PARTIAL_PREFIX_ID c p"
  "step E (PARTIAL_ATTRIBUTE_ID, c) p = partialId PARTIAL_ATTRIBUTE_ID c p"
  "step E (PARTIAL_ELEMENT_ID, c) p = partialId PARTIAL_ELEMENT_ID c p"
  "step E (OTHER_CODE, c) p = Inr p"
  by (simp_all add: step_def)

lemmas case_defs = openElementId_def closeElementId_def attributeId_def
  prefixId_def xmlnsId_def namespaceId_def startOffset_def unknownOpenElementEnd_def
  unknownCloseElementEnd_def unknownAttributeEnd_def valueEnd_def unknownUriEnd_def
  unknownPrefixEnd_def commentEnd_def partialLenCode_def partialId_def push_def
  newToken_def refreshLists_def elementEmitted_def resolveUnknownAt_def resolve_def
  resolveAt_def companion_def resolveSlot_def resolveToken_def tableGet_def
  objectPrototypeKeys_def getSlice_def buildSlice_def storeSlice_def slice_def
  relIndex_def setElem_def arrayGet_def

lemmas run_defs = transform_def parseCodeBuffer_def runCodes_def codesOf_def codeAt_def
  unpack_def enter_def leave_def newParser_def allocate0_def allocate_def emptyBuffer_def
  specialNamespaces_def throwError_def flush_def free_def eventTokens_def
  emittedTokens_def tokensUpTo_def

lemmas sample_defs = sampleEnv_def sampleConfig_def sampleCodeType_def sampleToken_def
  emptyWorld_def scanOf_def blankChunk_def sampleParser_def sampleWorld_def
  secondParser_def secondWorld_def

lemmas eval_simps = step_simps case_defs run_defs sample_defs bindE_simps upt_conv_Cons
  upto.simps Let_def

lemmas eval_congs = bindE_weak_cong let_weak_cong if_weak_cong option.case_cong_weak
  sum.case_cong_weak prod.case_cong_weak slot.case_cong_weak list.case_cong_weak

lemma sampleEnv_fields:
  "decodeArray sampleEnv b = b" "encodeArray sampleEnv str = str"
  "concatArray sampleEnv ps t = concat ps" "codeType sampleEnv = sampleCodeType"
  "addPrefix sampleEnv c nm = (sampleToken nm 1 None, c)"
  "updateNamespaces sampleEnv c = c"
  "addElement sampleEnv n nm = sampleToken nm 0 (Some (id_ns (base n)))"
  by (simp_all add: sampleEnv_def)

lemma sampleConfig_fields:
  "items (elementSpaceList sampleConfig) i = None"
  "items (attributeSpaceList sampleConfig) i = None"
  "items (prefixSpaceList sampleConfig) i = (if i = 0 then Some (sampleToken ''a'' 0 None) else None)"
  "items (uriSpaceList sampleConfig) i = None"
  "namespaceList_pc sampleConfig =
         [None,
          Some \<lparr> id_pn = 1,
                 base = \<lparr> id_ns = 1, defaultPrefix = [], uri = ''urn:t'',
                          isSpecial = False \<rparr> \<rparr>]"
  "maxNamespace sampleConfig = 1"
  by (simp_all add: sampleConfig_def)

lemma sampleToken_fields:
  "id_it (sampleToken nm i n) = i" "name_it (sampleToken nm i n) = nm"
  "buf_it (sampleToken nm i n) = nm"
  "open_it (sampleToken nm i n) = \<lparr> origin = None, kind = OpenKind, name = nm, ns = n \<rparr>"
  "close_it (sampleToken nm i n) = \<lparr> origin = None, kind = CloseKind, name = nm, ns = n \<rparr>"
  "string_it (sampleToken nm i n) = \<lparr> origin = None, kind = StringKind, name = nm, ns = n \<rparr>"
  "(sampleToken nm i n = sampleToken nm' i' n') = (nm = nm' \<and> i = i' \<and> n = n')"
  by (auto simp: sampleToken_def)

lemmas fast_simps = step_simps case_defs run_defs bindE_simps upt_conv_Cons upto.simps Let_def
  sampleEnv_fields sampleConfig_fields sampleToken_fields sampleCodeType_def
  emptyWorld_def scanOf_def blankChunk_def sampleParser_def sampleWorld_def
  secondParser_def secondWorld_def


section \<open>Invariants of a decode pass\<close>

lemma bindE_Inr: "bindE r f = Inr y \<Longrightarrow> \<exists>x. r = Inr x \<and> f x = Inr y"
  by (cases r) (auto simp: bindE_def)

lemma foldE_inv:
  assumes "\<And>s x s'. f s x = Inr s' \<Longrightarrow> P s \<Longrightarrow> P s'"
  shows "foldE f xs s = Inr s' \<Longrightarrow> P s \<Longrightarrow> P s'"
proof (induction xs arbitrary: s)
  case Nil
  then show ?case by simp
next
  case (Cons x xs)
  from Cons.prems(1) obtain s1 where "f s x = Inr s1" "foldE f xs s1 = Inr s'"
    by (auto dest: bindE_Inr)
  with Cons assms show ?case by blast
qed

lemma resolveAt_streamOf: "streamOf (resolveAt n pf es s x) = streamOf s"
  by (simp add: resolveAt_def streamOf_def split: slot.splits)

lemma foldl_resolveAt_streamOf: "streamOf (foldl (resolveAt n pf es) s xs) = streamOf s"
  by (induction xs arbitrary: s) (simp_all add: resolveAt_streamOf)

lemma streamOf_updates:
  "streamOf (p\<lparr> config := a \<rparr>) = streamOf p"
  "streamOf (p\<lparr> nativeCalls := b \<rparr>) = streamOf p"
  "streamOf (p\<lparr> latestElement := c \<rparr>) = streamOf p"
  "streamOf (p\<lparr> latestPrefix := d \<rparr>) = streamOf p"
  "streamOf (p\<lparr> latestNamespace := e \<rparr>) = streamOf p"
  "streamOf (p\<lparr> namespaceList := g \<rparr>) = streamOf p"
  "streamOf (p\<lparr> namespacesChanged := h \<rparr>) = streamOf p"
  "streamOf (p\<lparr> partList := i \<rparr>) = streamOf p"
  "streamOf (p\<lparr> partListTotalByteLen := j \<rparr>) = streamOf p"
  "streamOf (p\<lparr> partStart := k \<rparr>) = streamOf p"
  "streamOf (p\<lparr> partialLen := l \<rparr>) = streamOf p"
  "streamOf (p\<lparr> elementStart := m \<rparr>) = streamOf p"
  "streamOf (p\<lparr> prefixBuffer := n \<rparr>) = streamOf p"
  "streamOf (p\<lparr> namespaceBuffer := o' \<rparr>) = streamOf p"
  "streamOf (p\<lparr> unknownElementTbl := q \<rparr>) = streamOf p"
  "streamOf (p\<lparr> unknownAttributeTbl := r \<rparr>) = streamOf p"
  "streamOf (p\<lparr> unknownOffsetList := t \<rparr>) = streamOf p"
  "streamOf (p\<lparr> unknownCount := u \<rparr>) = streamOf p"
  "streamOf (p\<lparr> tokenBuffer := v \<rparr>) = streamOf p"
  "streamOf (p\<lparr> tokenNum := w \<rparr>) = streamOf p"
  "streamOf (p\<lparr> elementList := x \<rparr>) = streamOf p"
  "streamOf (p\<lparr> attributeList := y \<rparr>) = streamOf p"
  "streamOf (p\<lparr> prefixList := z \<rparr>) = streamOf p"
  "streamOf (p\<lparr> uriList := a' \<rparr>) = streamOf p"
  "streamOf (p\<lparr> partialList := b' \<rparr>) = streamOf p"
  "streamOf (p\<lparr> serial := c' \<rparr>) = streamOf p"
  by (simp_all add: streamOf_def)

lemma resolve_streamOf: "resolve es tn pf i p = Inr q \<Longrightarrow> streamOf q = streamOf p"
  by (auto simp: resolve_def foldl_resolveAt_streamOf streamOf_updates
      split: option.splits sum.splits if_splits)

lemma getSlice_streamOf: "streamOf (snd (getSlice E s f p)) = streamOf p"
  by (simp add: getSlice_def buildSlice_def storeSlice_def Let_def streamOf_updates
      split: option.splits)

lemma elementEmitted_streamOf:
  assumes "elementEmitted k p = Inr q"
  shows "streamOf q = streamOf p"
proof -
  have R: "\<And>s x s'. resolveUnknownAt s x = Inr s' \<Longrightarrow> streamOf s = streamOf p \<Longrightarrow>
             streamOf s' = streamOf p"
    by (auto simp: resolveUnknownAt_def streamOf_updates dest!: bindE_Inr split: option.splits)
  have F: "\<And>xs s'. foldE resolveUnknownAt xs p = Inr s' \<Longrightarrow> streamOf s' = streamOf p"
    using foldE_inv [where f = resolveUnknownAt and P = "\<lambda>s. streamOf s = streamOf p"] R
    by blast
  from assms show ?thesis
    by (auto simp: elementEmitted_def push_def streamOf_updates dest!: bindE_Inr F
        split: if_splits)
qed

lemma step_streamOf: "step E kc p = Inr q \<Longrightarrow> streamOf q = streamOf p"
  apply (cases kc)
  subgoal for k code
    apply (cases k)
    apply (auto simp: step_def openElementId_def closeElementId_def attributeId_def
        prefixId_def xmlnsId_def namespaceId_def startOffset_def unknownOpenElementEnd_def
        unknownCloseElementEnd_def unknownAttributeEnd_def valueEnd_def unknownUriEnd_def
        unknownPrefixEnd_def commentEnd_def partialLenCode_def partialId_def push_def
        newToken_def refreshLists_def Let_def split_beta getSlice_streamOf streamOf_updates
        dest!: bindE_Inr dest: resolve_streamOf elementEmitted_streamOf
        split: option.splits if_splits)
    done
  done

lemma parseCodeBuffer_chunk:
  assumes "parseCodeBuffer E pending cb (p, w) = Inr (q, w1)"
  shows "streamOf q = streamOf p \<and> buffer (chunks w1 (tokenChunk q)) = tokenBuffer q \<and>
         length_tc (chunks w1 (tokenChunk q)) = tokenNum q + 1 \<and> first w1 = first w"
proof -
  from assms obtain p1 where r: "runCodes E (codesOf E cb) (enter w p) = Inr p1"
    and l: "leave E pending w p1 = (q, w1)"
    by (auto simp: parseCodeBuffer_def dest!: bindE_Inr)
  have "streamOf p1 = streamOf (enter w p)"
    using r foldE_inv [where f = "\<lambda>q kc. step E kc q"
        and P = "\<lambda>s. streamOf s = streamOf (enter w p)"] step_streamOf
    unfolding runCodes_def by metis
  then have "streamOf p1 = streamOf p"
    by (simp add: enter_def refreshLists_def streamOf_updates)
  with l show ?thesis
    by (auto simp: leave_def Let_def storeSlice_def streamOf_def split: if_splits)
qed

lemma pending_chunk:
  assumes "foldE (\<lambda>s1 cb. parseCodeBuffer E True cb s1) cbs (p, w) = Inr (q, w1)"
  shows "streamOf q = streamOf p \<and> first w1 = first w"
  using foldE_inv [where f = "\<lambda>s1 cb. parseCodeBuffer E True cb s1"
      and P = "\<lambda>s. streamOf (fst s) = streamOf p \<and> first (snd s) = first w"
      and s = "(p, w)" and s' = "(q, w1)" and xs = cbs]
    parseCodeBuffer_chunk assms
  by (metis fst_conv snd_conv prod.collapse)

text \<open>What a call of \<^verbatim>\<open>_transform\<close> that gets past the error check went through.\<close>

lemma transform_stages:
  assumes "transform E scan input (p, w) = Inr (evs, p', w')" and "\<not> hasError p"
  shows "\<exists>p2 w2. tokenChunk p2 = tokenChunk p \<and> errorListener p2 = errorListener p \<and>
           dataListener p2 = dataListener p \<and> first w2 = first w \<and>
           buffer (chunks w2 (tokenChunk p2)) = tokenBuffer p2 \<and>
           length_tc (chunks w2 (tokenChunk p2)) = tokenNum p2 + 1 \<and>
           (if status scan \<noteq> OK then
              evs = fst (throwError (status scan) (row scan) (col scan) p2) \<and>
              p' = snd (throwError (status scan) (row scan) (col scan) p2) \<and> w' = w2
            else if elementStart p2 < 0 then
              (let w3 = (if namespacesChanged p2 then
                           w2\<lparr> chunks := (chunks w2)(tokenChunk p2 :=
                                 (chunks w2 (tokenChunk p2))
                                   \<lparr> namespaceList_tc := Some (namespaceList p2) \<rparr>) \<rparr>
                         else w2)
               in evs = [Flushed (tokenChunk p2) (chunks w3 (tokenChunk p2))] \<and>
                  p' = p2\<lparr> tokenChunk := fst (allocate0 (dataListener p2 (tokenChunk p2) w3)) \<rparr> \<and>
                  w' = snd (allocate0 (dataListener p2 (tokenChunk p2) w3)))
            else (evs, p', w') = ([FlushedNull], p2, w2))"
proof -
  define c where "c = (case input of InString str \<Rightarrow> encodeArray E str | InBytes b \<Rightarrow> b)"
  define p1 where "p1 = p\<lparr> chunk := c, nativeCalls := nativeCalls p @ [NativeParse c] \<rparr>"
  from assms obtain s2 p2 w2 where
    a: "foldE (\<lambda>s1 cb. parseCodeBuffer E True cb s1) (pendingBuffers scan) (p1, w) = Inr s2"
    and b: "parseCodeBuffer E False (finalBuffer scan) s2 = Inr (p2, w2)"
    and r: "(if status scan \<noteq> OK then
              (let (evs, p3) = throwError (status scan) (row scan) (col scan) p2
               in Inr (evs, p3, w2))
            else if elementStart p2 < 0 then
              (let w3 = (if namespacesChanged p2 then
                           w2\<lparr> chunks := (chunks w2)(tokenChunk p2 :=
                                 (chunks w2 (tokenChunk p2))
                                   \<lparr> namespaceList_tc := Some (namespaceList p2) \<rparr>) \<rparr>
                         else w2);
                   (c1, w4) = allocate0 (dataListener p2 (tokenChunk p2) w3)
               in Inr ([Flushed (tokenChunk p2) (chunks w3 (tokenChunk p2))],
                       p2\<lparr> tokenChunk := c1 \<rparr>, w4))
            else Inr ([FlushedNull], p2, w2)) =
           (Inr (evs, p', w') :: error + Event list \<times> Parser \<times> World)"
    by (auto simp: transform_def p1_def c_def Let_def dest!: bindE_Inr split: prod.splits)
  obtain q2 v2 where s2: "s2 = (q2, v2)" by (cases s2)
  have t1: "streamOf q2 = streamOf p1 \<and> first v2 = first w"
    using a pending_chunk [of E "pendingBuffers scan" p1 w q2 v2]
    by (simp add: s2)
  have t2: "streamOf p2 = streamOf q2 \<and> buffer (chunks w2 (tokenChunk p2)) = tokenBuffer p2 \<and>
         length_tc (chunks w2 (tokenChunk p2)) = tokenNum p2 + 1 \<and> first w2 = first v2"
    using b parseCodeBuffer_chunk unfolding s2 by blast
  from r have "(if status scan \<noteq> OK then
              evs = fst (throwError (status scan) (row scan) (col scan) p2) \<and>
              p' = snd (throwError (status scan) (row scan) (col scan) p2) \<and> w' = w2
            else if elementStart p2 < 0 then
              (let w3 = (if namespacesChanged p2 then
                           w2\<lparr> chunks := (chunks w2)(tokenChunk p2 :=
                                 (chunks w2 (tokenChunk p2))
                                   \<lparr> namespaceList_tc := Some (namespaceList p2) \<rparr>) \<rparr>
                         else w2)
               in evs = [Flushed (tokenChunk p2) (chunks w3 (tokenChunk p2))] \<and>
                  p' = p2\<lparr> tokenChunk := fst (allocate0 (dataListener p2 (tokenChunk p2) w3)) \<rparr> \<and>
                  w' = snd (allocate0 (dataListener p2 (tokenChunk p2) w3)))
            else (evs, p', w') = ([FlushedNull], p2, w2))"
    by (auto simp: Let_def split: if_splits prod.splits)
  moreover from t1 t2 have "tokenChunk p2 = tokenChunk p \<and> errorListener p2 = errorListener p \<and>
      dataListener p2 = dataListener p \<and> first w2 = first w"
    by (simp add: streamOf_def p1_def)
  ultimately show ?thesis using t2 by metis
qed

lemma Inr_projr:
  "isl r = False \<Longrightarrow> r = Inr (fst (projr r), fst (snd (projr r)), snd (snd (projr r)))"
  by (cases r) auto

lemma sampleParser_ok: "\<not> hasError sampleParser \<and> \<not> hasError secondParser"
  by (simp add: eval_simps cong: eval_congs)

section \<open>The error latch\<close>

lemma writeAll_latched: "hasError p \<Longrightarrow> writeAll E calls (p, w) = Inr ([], p, w)"
  by (induction calls) (auto simp: transform_def bindE_def)

text \<open>
  With an error listener that returns, a status other than \<open>OK\<close> sets \<open>hasError\<close>,
  and from then on every sequence of calls returns at once: no event, and the
  parser is unchanged, so the scanner was not called.
\<close>

lemma latched_when_listener_returns:
  assumes "transform E scan input (p, w) = Inr (evs, p', w')"
    and "\<not> hasError p" and "status scan \<noteq> OK" and "errorListener p = ListenerReturns"
  shows "evs = [ErrorEvent (status scan) (row scan + 1) (col scan + 1)] \<and> hasError p' \<and>
         writeAll E calls (p', w2) = Inr ([], p', w2)"
proof -
  from transform_stages [OF assms(1,2)] assms(3) obtain p2 where
    "errorListener p2 = errorListener p"
    "evs = fst (throwError (status scan) (row scan) (col scan) p2)"
    "p' = snd (throwError (status scan) (row scan) (col scan) p2)"
    by auto
  with assms(4)
  have "evs = [ErrorEvent (status scan) (row scan + 1) (col scan + 1)] \<and> hasError p'"
    by (auto simp: throwError_def)
  then show ?thesis by (simp add: writeAll_latched)
qed

lemma badWrite_run:
  "let r = badWrite in
   isl r = False \<and>
   fst (projr r) = [ErrorEvent (Malformed 1) 1 3, Thrown (Malformed 1) 1 3] \<and>
   \<not> hasError (fst (snd (projr r))) \<and>
   nativeCalls (fst (snd (projr r))) = [NativeParse ''<a<''] \<and>
   (let r2 = transform sampleEnv (scanOf [3, 43, 76, 3]) (InBytes ''<a/>'') (snd (projr r))
    in isl r2 = False \<and>
       nativeCalls (fst (snd (projr r2))) = [NativeParse ''<a<'', NativeParse ''<a/>''] \<and>
       emittedTokens (fst (projr r2)) =
         [Member \<lparr> origin = Some 0, kind = OpenKind, name = ''a'', ns = None \<rparr>,
          Member \<lparr> origin = Some 0, kind = OpenKind, name = ''a'', ns = None \<rparr>,
          Member \<lparr> origin = Some 0, kind = CloseKind, name = ''a'', ns = None \<rparr>])"
  by (simp add: badWrite_def badScan_def attachParseSync_def eval_simps cong: eval_congs)

text \<open>
  Claim C6 fails on the code. \<^verbatim>\<open>parseSync('<a<')\<close>: the scanner reports a
  malformed input at row 1, column 3; \<^verbatim>\<open>throwError\<close> emits the error, the listener
  of \<^verbatim>\<open>parseSync\<close> throws it, and \<open>hasError\<close> is never set. The next write to the
  same parser calls the scanner again and emits tokens.
\<close>

theorem C6_latch_skipped_when_listener_throws:
  "isl badWrite = False \<and>
   fst (projr badWrite) = [ErrorEvent (Malformed 1) 1 3, Thrown (Malformed 1) 1 3] \<and>
   \<not> hasError (fst (snd (projr badWrite))) \<and>
   nativeCalls (fst (snd (projr badWrite))) = [NativeParse ''<a<''] \<and>
   isl afterBad = False \<and>
   nativeCalls (fst (snd (projr afterBad))) = [NativeParse ''<a<'', NativeParse ''<a/>''] \<and>
   emittedTokens (fst (projr afterBad)) =
     [Member \<lparr> origin = Some 0, kind = OpenKind, name = ''a'', ns = None \<rparr>,
      Member \<lparr> origin = Some 0, kind = OpenKind, name = ''a'', ns = None \<rparr>,
      Member \<lparr> origin = Some 0, kind = CloseKind, name = ''a'', ns = None \<rparr>]"
  using badWrite_run unfolding Let_def afterBad_def by simp

section \<open>Readiness to flush\<close>

text \<open>
  Claim C7. After a call of \<^verbatim>\<open>_transform\<close> that the scanner ended with \<open>OK\<close>
  (and whose decoding did not throw): when no element is open (\<open>elementStart < 0\<close>)
  the one event is the filled token chunk of the parser, its buffer and length
  those of the pass; otherwise the one event is a null chunk, and the parser keeps
  its chunk, which holds the tokens written so far.
\<close>

theorem C7_flush_iff_no_open_element:
  assumes "transform E scan input (p, w) = Inr (evs, p', w')"
    and "\<not> hasError p" and "status scan = OK"
  shows "if elementStart p' < 0
         then (\<exists>ch. evs = [Flushed (tokenChunk p) ch] \<and> buffer ch = tokenBuffer p' \<and>
                 length_tc ch = tokenNum p' + 1)
         else evs = [FlushedNull] \<and> tokenChunk p' = tokenChunk p \<and>
              buffer (chunks w' (tokenChunk p')) = tokenBuffer p' \<and>
              length_tc (chunks w' (tokenChunk p')) = tokenNum p' + 1"
  using transform_stages [OF assms(1,2)] assms(3)
  by (auto simp: Let_def split: if_splits)

lemma openTag_run:
  "let r = openTag in isl r = False \<and> \<not> elementStart (fst (snd (projr r))) < 0"
  by (simp add: openTag_def eval_simps cong: eval_congs)

lemma closedTag_run:
  "let r = closedTag in
   isl r = False \<and> elementStart (fst (snd (projr r))) < 0 \<and>
   tokenNum (fst (snd (projr r))) + 1 = 2"
  by (simp add: closedTag_def eval_simps cong: eval_congs)

theorem C7_witness:
  "isl openTag = False \<and> \<not> hasError sampleParser \<and> status (scanOf [2, 43, 76]) = OK \<and>
   fst (projr openTag) = [FlushedNull] \<and>
   tokenChunk (fst (snd (projr openTag))) = tokenChunk sampleParser \<and>
   isl closedTag = False \<and> status (scanOf [3, 43, 76, 2]) = OK \<and>
   (\<exists>ch. fst (projr closedTag) = [Flushed (tokenChunk sampleParser) ch] \<and> length_tc ch = 2)"
proof -
  note a = openTag_run [unfolded Let_def] and a' = closedTag_run [unfolded Let_def]
  have b: "\<not> hasError sampleParser" using sampleParser_ok by simp
  have c: "status (scanOf [2, 43, 76]) = OK" "status (scanOf [3, 43, 76, 2]) = OK"
    by (simp_all add: scanOf_def)
  have e: "transform sampleEnv (scanOf [2, 43, 76]) (InBytes ''<a'') (sampleParser, sampleWorld) =
      Inr (fst (projr openTag), fst (snd (projr openTag)), snd (snd (projr openTag)))"
    using Inr_projr [of openTag] a by (simp add: openTag_def)
  have e': "transform sampleEnv (scanOf [3, 43, 76, 2]) (InBytes ''<a>'') (sampleParser, sampleWorld) =
      Inr (fst (projr closedTag), fst (snd (projr closedTag)), snd (snd (projr closedTag)))"
    using Inr_projr [of closedTag] a' by (simp add: closedTag_def)
  from C7_flush_iff_no_open_element [OF e b c(1)] a
  have 1: "fst (projr openTag) = [FlushedNull] \<and>
           tokenChunk (fst (snd (projr openTag))) = tokenChunk sampleParser"
    by simp
  from C7_flush_iff_no_open_element [OF e' b c(2)] a'
  have 2: "\<exists>ch. fst (projr closedTag) = [Flushed (tokenChunk sampleParser) ch] \<and> length_tc ch = 2"
    by auto
  from 1 2 a a' b c show ?thesis by blast
qed

section \<open>The end of the stream\<close>

lemma openText_run:
  "let r = openText in
   isl r = False \<and>
   partStart (fst (snd (projr r))) = 0 \<and>
   partList (fst (snd (projr r))) = Some [''text''] \<and>
   emittedTokens (fst (projr r) @ fst (flush (fst (snd (projr r))))) =
     [Member \<lparr> origin = Some 0, kind = OpenKind, name = ''a'', ns = None \<rparr>,
      Member \<lparr> origin = Some 0, kind = EmittedKind, name = ''a'', ns = None \<rparr>]"
  by (simp add: openText_def eval_simps cong: eval_congs)

text \<open>
  Claim C8 does not hold. After the write \<^verbatim>\<open><a>text\<close> the text run is open: its
  bytes are saved in the part list. The stream then ends, and the tokens the
  consumer received over the whole stream are the two tokens of the element: the
  text is in none of them.
\<close>

theorem C8_counterexample:
  "isl openText = False \<and>
   partStart (fst (snd (projr openText))) = 0 \<and>
   partList (fst (snd (projr openText))) = Some [''text''] \<and>
   emittedTokens (fst (projr openText) @ fst (flush (fst (snd (projr openText))))) =
     [Member \<lparr> origin = Some 0, kind = OpenKind, name = ''a'', ns = None \<rparr>,
      Member \<lparr> origin = Some 0, kind = EmittedKind, name = ''a'', ns = None \<rparr>]"
  by (rule openText_run [unfolded Let_def])

text \<open>
  Claim C8, amended. At the end of the stream \<^verbatim>\<open>_flush\<close> destroys the scanner and
  delivers a null chunk: it emits no token and leaves the saved parts and the
  start offset of an open run as they are.
\<close>

theorem C8_flush_emits_nothing:
  "fst (flush p) = [FlushedNull] \<and> emittedTokens (fst (flush p)) = [] \<and>
   partList (snd (flush p)) = partList p \<and> partStart (snd (flush p)) = partStart p \<and>
   tokenChunk (snd (flush p)) = tokenChunk p \<and>
   nativeCalls (snd (flush p)) = nativeCalls p @ [NativeDestroy]"
  by (simp add: flush_def emittedTokens_def eventTokens_def)

section \<open>The free list is shared\<close>

lemma release_runs:
  "let r = afterFirst in
   isl r = False \<and> tokenChunk sampleParser = 0 \<and> tokenChunk secondParser = 1 \<and>
   (let r1 = transform sampleEnv (scanOf [0]) (InBytes []) (secondParser, snd (snd (projr r)));
        r2 = transform sampleEnv (scanOf [0]) (InBytes [])
               (secondParser, free 0 (snd (snd (projr r))));
        r3 = transform sampleEnv (scanOf [0]) (InBytes [])
               (attachParseSync secondParser, free 0 (snd (snd (projr r))))
    in tokenChunk (fst (snd (projr r1))) = 3 \<and>
       isl r2 = False \<and> elementStart (fst (snd (projr r2))) < 0 \<and>
       tokenChunk (fst (snd (projr r2))) = 0 \<and>
       isl r3 = False \<and> elementStart (fst (snd (projr r3))) < 0 \<and>
       tokenChunk (fst (snd (projr r3))) = 1 \<and> first (snd (snd (projr r3))) = Some 0)"
  by (simp add: afterFirst_def attachParseSync_def eval_simps cong: eval_congs)

text \<open>
  Claim C9 does not hold. Two parsers hold the chunks 0 and 1. The first parser
  hands chunk 0 to its consumer. If that consumer does not release the chunk, the
  next pass of the second parser takes a new chunk, 3; if it does, the same pass
  of the second parser takes chunk 0.
\<close>

theorem C9_counterexample:
  "isl afterFirst = False \<and>
   tokenChunk sampleParser = 0 \<and> tokenChunk secondParser = 1 \<and>
   tokenChunk (fst (snd (projr withoutRelease))) = 3 \<and>
   tokenChunk (fst (snd (projr afterRelease))) = 0"
  using release_runs unfolding Let_def withoutRelease_def afterRelease_def by simp

text \<open>
  Claim C9, amended. The free list is one static list of the process, shared by
  all parser pipelines: \<^verbatim>\<open>allocate\<close> returns the chunk released last, whichever
  pipeline released it and whichever calls. For a decode pass of any parser that
  flushes, after a chunk \<open>c\<close> was released anywhere: when the consumer of this
  parser leaves the list alone inside the \<^verbatim>\<open>flush\<close> callback, the parser takes \<open>c\<close>
  as its new token chunk; when the consumer releases the chunk it is handed
  there, the parser takes that chunk back and \<open>c\<close> is first on the list again,
  for the next \<^verbatim>\<open>allocate\<close>.
\<close>

theorem C9_released_chunk_is_shared:
  assumes "transform E scan input (p, free c w) = Inr (evs, p', w')"
    and "\<not> hasError p" and "status scan = OK" and "elementStart p' < 0"
  shows "((\<forall>d v. first (dataListener p d v) = first v) \<longrightarrow> tokenChunk p' = c) \<and>
         (dataListener p = free \<longrightarrow> tokenChunk p' = tokenChunk p \<and> first w' = Some c)"
proof -
  from transform_stages [OF assms(1,2)] assms(3) obtain p2 w2 where
    t: "tokenChunk p2 = tokenChunk p" and d: "dataListener p2 = dataListener p"
    and f: "first w2 = first (free c w)" and
    r: "if elementStart p2 < 0 then
              (let w3 = (if namespacesChanged p2 then
                           w2\<lparr> chunks := (chunks w2)(tokenChunk p2 :=
                                 (chunks w2 (tokenChunk p2))
                                   \<lparr> namespaceList_tc := Some (namespaceList p2) \<rparr>) \<rparr>
                         else w2)
               in evs = [Flushed (tokenChunk p2) (chunks w3 (tokenChunk p2))] \<and>
                  p' = p2\<lparr> tokenChunk := fst (allocate0 (dataListener p2 (tokenChunk p2) w3)) \<rparr> \<and>
                  w' = snd (allocate0 (dataListener p2 (tokenChunk p2) w3)))
            else (evs, p', w') = ([FlushedNull], p2, w2)"
    by auto
  define w3 where "w3 = (if namespacesChanged p2 then
                           w2\<lparr> chunks := (chunks w2)(tokenChunk p2 :=
                                 (chunks w2 (tokenChunk p2))
                                   \<lparr> namespaceList_tc := Some (namespaceList p2) \<rparr>) \<rparr>
                         else w2)"
  have e: "elementStart p2 < 0"
    using r assms(4) by (cases "elementStart p2 < 0") auto
  from r e have p': "tokenChunk p' = fst (allocate0 (dataListener p (tokenChunk p) w3))"
    and w': "w' = snd (allocate0 (dataListener p (tokenChunk p) w3))"
    by (simp_all add: Let_def w3_def t d)
  have f3: "first w3 = Some c" using f by (simp add: w3_def free_def)
  have a: "tokenChunk p' = c" if "\<forall>d v. first (dataListener p d v) = first v"
    using that f3 by (simp add: p' allocate0_def allocate_def)
  have b: "tokenChunk p' = tokenChunk p \<and> first w' = Some c" if "dataListener p = free"
    using that f3 by (simp add: p' w' allocate0_def allocate_def free_def)
  from a b show ?thesis by blast
qed

theorem C9_witness:
  "isl afterRelease = False \<and> \<not> hasError secondParser \<and> status (scanOf [0]) = OK \<and>
   elementStart (fst (snd (projr afterRelease))) < 0 \<and>
   (\<forall>d v. first (dataListener secondParser d v) = first v) \<and>
   tokenChunk (fst (snd (projr afterRelease))) = 0 \<and>
   isl syncRelease = False \<and> \<not> hasError (attachParseSync secondParser) \<and>
   elementStart (fst (snd (projr syncRelease))) < 0 \<and>
   dataListener (attachParseSync secondParser) = free \<and>
   tokenChunk (fst (snd (projr syncRelease))) = tokenChunk (attachParseSync secondParser) \<and>
   first (snd (snd (projr syncRelease))) = Some 0"
proof -
  have a: "isl afterRelease = False \<and> elementStart (fst (snd (projr afterRelease))) < 0"
    and a': "isl syncRelease = False \<and> elementStart (fst (snd (projr syncRelease))) < 0"
    using release_runs unfolding Let_def afterRelease_def syncRelease_def by simp_all
  have b: "\<not> hasError secondParser" "\<not> hasError (attachParseSync secondParser)"
    using sampleParser_ok by (simp_all add: attachParseSync_def)
  have c: "status (scanOf [0]) = OK" by (simp add: scanOf_def)
  have l: "\<forall>d v. first (dataListener secondParser d v) = first v"
    "dataListener (attachParseSync secondParser) = free"
    by (simp_all add: secondParser_def newParser_def attachParseSync_def split_beta)
  have e: "transform sampleEnv (scanOf [0]) (InBytes [])
             (secondParser, free 0 (snd (snd (projr afterFirst)))) =
      Inr (fst (projr afterRelease), fst (snd (projr afterRelease)),
           snd (snd (projr afterRelease)))"
    using Inr_projr [of afterRelease] a by (simp add: afterRelease_def)
  have e': "transform sampleEnv (scanOf [0]) (InBytes [])
             (attachParseSync secondParser, free 0 (snd (snd (projr afterFirst)))) =
      Inr (fst (projr syncRelease), fst (snd (projr syncRelease)),
           snd (snd (projr syncRelease)))"
    using Inr_projr [of syncRelease] a' by (simp add: syncRelease_def)
  from C9_released_chunk_is_shared [OF e b(1) c] a l(1)
  have 1: "tokenChunk (fst (snd (projr afterRelease))) = 0" by simp
  from C9_released_chunk_is_shared [OF e' b(2) c] a' l(2)
  have 2: "tokenChunk (fst (snd (projr syncRelease))) = tokenChunk (attachParseSync secondParser) \<and>
           first (snd (snd (projr syncRelease))) = Some 0" by simp
  from 1 2 a a' b c l show ?thesis by blast
qed

section \<open>The tables of unknown names\<close>

lemma getSlice_tables:
  "unknownElementTbl (snd (getSlice E s f p)) = unknownElementTbl p"
  "unknownAttributeTbl (snd (getSlice E s f p)) = unknownAttributeTbl p"
  "serial (snd (getSlice E s f p)) = serial p"
  by (simp_all add: getSlice_def buildSlice_def storeSlice_def Let_def split: option.splits)

text \<open>
  The name token the case \<^verbatim>\<open>UNKNOWN_OPEN_ELEMENT_END_OFFSET\<close> writes: what the
  read of the table gives, and a new token only when that is \<^verbatim>\<open>undefined\<close>;
  afterwards the read of the table gives the token written.
\<close>

lemma unknownOpenElementEnd_token:
  "elems (tokenBuffer (unknownOpenElementEnd E code p)) (tokenNum p + 1) =
     (case tableGet (unknownElementTbl p) (fst (getSlice E (partStart p) (Some code) p)) of
        Undefined \<Rightarrow>
          Member \<lparr> origin = Some (serial p), kind = OpenKind,
                   name = fst (getSlice E (partStart p) (Some code) p), ns = None \<rparr>
      | v \<Rightarrow> v)"
  by (simp add: unknownOpenElementEnd_def newToken_def push_def setElem_def split_beta Let_def
      getSlice_tables getSlice_tokens split: slot.splits)

lemma unknownOpenElementEnd_table:
  "tableGet (unknownElementTbl (unknownOpenElementEnd E code p))
       (fst (getSlice E (partStart p) (Some code) p)) =
     elems (tokenBuffer (unknownOpenElementEnd E code p)) (tokenNum p + 1)"
  by (simp add: unknownOpenElementEnd_def newToken_def push_def setElem_def split_beta Let_def
      getSlice_tables getSlice_tokens tableGet_def split: slot.splits option.splits)

text \<open>
  With an ordinary name the two parsers behave as claim C4 says: the first parser
  writes one and the same token for both occurrences of \<^verbatim>\<open>a\<close>, the second parser
  a token of its own.
\<close>

lemma plain_names_interned:
  "let r1 = plainFirst in
   isl r1 = False \<and>
   emittedTokens (fst (projr r1)) =
     [Member \<lparr> origin = Some 0, kind = OpenKind, name = ''a'', ns = None \<rparr>,
      Member \<lparr> origin = Some 0, kind = CloseKind, name = ''a'', ns = None \<rparr>,
      Member \<lparr> origin = Some 0, kind = OpenKind, name = ''a'', ns = None \<rparr>,
      Member \<lparr> origin = Some 0, kind = CloseKind, name = ''a'', ns = None \<rparr>] \<and>
   (let r2 = transform sampleEnv (scanOf [3, 43, 76, 3]) (InBytes ''<a/>'')
               (secondParser, snd (snd (projr r1)))
    in isl r2 = False \<and>
       emittedTokens (fst (projr r2)) =
         [Member \<lparr> origin = Some 1, kind = OpenKind, name = ''a'', ns = None \<rparr>,
          Member \<lparr> origin = Some 1, kind = CloseKind, name = ''a'', ns = None \<rparr>])"
  by (simp add: plainFirst_def eval_simps cong: eval_congs)

lemma proto_runs:
  "let r1 = protoFirst in
   isl r1 = False \<and>
   emittedTokens (fst (projr r1)) = [ProtoProp ''constructor'', Undefined] \<and>
   unknownElementTbl (fst (snd (projr r1))) ''constructor'' = None \<and>
   (let r2 = transform sampleEnv (scanOf [3, 43, 396, 3]) (InBytes ''<constructor/>'')
               (secondParser, snd (snd (projr r1)))
    in isl r2 = False \<and>
       emittedTokens (fst (projr r2)) = [ProtoProp ''constructor'', Undefined])"
  by (simp add: protoFirst_def eval_simps cong: eval_congs)

text \<open>
  Claim C4 is not met by the code for a name that is a property of
  \<^verbatim>\<open>Object.prototype\<close>. The document \<^verbatim>\<open><constructor/>\<close> is decoded by two parsers
  of one process. Each reads \<^verbatim>\<open>unknownElementTbl['constructor']\<close>, finds the
  inherited property, creates no token and stores none: both write the same
  object, which is no name token, and nothing for the closing token.
\<close>

theorem C4_prototype_name_shared:
  "isl protoFirst = False \<and> isl protoSecond = False \<and>
   emittedTokens (fst (projr protoFirst)) = [ProtoProp ''constructor'', Undefined] \<and>
   emittedTokens (fst (projr protoSecond)) = [ProtoProp ''constructor'', Undefined] \<and>
   unknownElementTbl (fst (snd (projr protoFirst))) ''constructor'' = None"
  using proto_runs unfolding Let_def protoSecond_def by simp

section \<open>The forward patch of a prefix\<close>

lemma Inr_projr1: "isl r = False \<Longrightarrow> r = Inr (projr r)"
  by (cases r) auto

lemma resolveToken_idem: "resolveToken (resolveToken m n) n = resolveToken m n"
  by (simp add: resolveToken_def)

lemma resolveAt_elems:
  "elems (tokenBuffer (resolveAt n pf es s x)) i =
     (if i = x + es \<and> prefixBuffer s x = pf
      then (case elems (tokenBuffer s) i of Member m \<Rightarrow> Member (resolveToken m n) | v \<Rightarrow> v)
      else elems (tokenBuffer s) i)"
  by (auto simp: resolveAt_def setElem_def split: slot.splits)

lemma resolveAt_prefixBuffer: "prefixBuffer (resolveAt n pf es s x) = prefixBuffer s"
  by (auto simp: resolveAt_def split: slot.splits)

lemma foldl_resolveAt_elems:
  "elems (tokenBuffer (foldl (resolveAt n pf es) s xs)) i =
     (if i - es \<in> set xs \<and> prefixBuffer s (i - es) = pf
      then (case elems (tokenBuffer s) i of Member m \<Rightarrow> Member (resolveToken m n) | v \<Rightarrow> v)
      else elems (tokenBuffer s) i)"
proof (induction xs arbitrary: s)
  case Nil
  then show ?case by simp
next
  case (Cons x xs)
  have "i - es = x \<longleftrightarrow> i = x + es" by auto
  then show ?case
    by (auto simp: Cons.IH resolveAt_elems resolveAt_prefixBuffer resolveToken_idem
        split: slot.splits)
qed

lemma foldl_resolveAt_config:
  "config (foldl (resolveAt n pf es) s xs) = config s"
  by (induction xs arbitrary: s) (auto simp: resolveAt_def split: slot.splits)

text \<open>
  The case \<^verbatim>\<open>NAMESPACE_ID\<close> binds the latest prefix \<open>P\<close> to the namespace \<open>n\<close> of
  the code. In the token buffer it rewrites exactly the slots of the open element,
  from \<open>elementStart\<close> to \<open>tokenNum\<close>, whose recorded prefix is \<open>P\<close> and which hold a
  name; every other slot is left as it is. Every rewritten name keeps its kind and
  its name and belongs to \<open>n\<close>.
\<close>

lemma forward_patch_exact:
  assumes "step E (NAMESPACE_ID, idNamespace) p = Inr q"
  shows "\<exists>n. arrayGet (namespaceList_pc (config q)) idNamespace = Some n \<and>
           latestPrefix q = None \<and>
           (\<forall>i. elems (tokenBuffer q) i =
              (if elementStart p \<le> i \<and> i \<le> tokenNum p \<and>
                  prefixBuffer p (i - elementStart p) = latestPrefix p
               then (case elems (tokenBuffer p) i of
                       Member m \<Rightarrow> Member (resolveToken m n) | v \<Rightarrow> v)
               else elems (tokenBuffer p) i)) \<and>
           (\<forall>i m. elementStart p \<le> i \<and> i \<le> tokenNum p \<and>
                  prefixBuffer p (i - elementStart p) = latestPrefix p \<and>
                  elems (tokenBuffer p) i = Member m \<longrightarrow>
                  (\<exists>m'. elems (tokenBuffer q) i = Member m' \<and> kind m' = kind m \<and>
                        name m' = name m \<and> ns m' = Some (id_ns (base n))))"
proof -
  from assms obtain q1 where
    r: "resolve (elementStart p) (tokenNum p) (latestPrefix p) idNamespace p = Inr q1"
    and q: "q = q1\<lparr> latestPrefix := None \<rparr>"
    by (auto simp: step_def namespaceId_def dest!: bindE_Inr)
  from r obtain n0 n1 where
    g: "arrayGet (namespaceList_pc (config p)) idNamespace = Some n0"
    and q1: "q1 = foldl (resolveAt n1 (latestPrefix p) (elementStart p))
                (p\<lparr> config := (config p)\<lparr> namespaceList_pc :=
                                      (namespaceList_pc (config p))[nat idNamespace := Some n1] \<rparr>,
                    namespaceList := (namespaceList p)(id_ns (base n1) := Some (base n1)),
                    namespacesChanged := True \<rparr>)
                [0..tokenNum p - elementStart p]"
    by (auto simp: resolve_def split: option.splits sum.splits if_splits)
  have a: "arrayGet (namespaceList_pc (config q)) idNamespace = Some n1"
    using g by (auto simp: q q1 foldl_resolveAt_config arrayGet_def split: if_splits)
  have b: "\<And>i. (i - elementStart p \<in> set [0..tokenNum p - elementStart p]) =
                 (elementStart p \<le> i \<and> i \<le> tokenNum p)"
    by auto
  have e: "\<And>i. elems (tokenBuffer q) i =
              (if elementStart p \<le> i \<and> i \<le> tokenNum p \<and>
                  prefixBuffer p (i - elementStart p) = latestPrefix p
               then (case elems (tokenBuffer p) i of
                       Member m \<Rightarrow> Member (resolveToken m n1) | v \<Rightarrow> v)
               else elems (tokenBuffer p) i)"
    unfolding q q1 by (simp add: foldl_resolveAt_elems b)
  show ?thesis
    apply (rule exI [of _ n1])
    using a e by (auto simp: q resolveToken_def)
qed

lemma binding_runs:
  "let r1 = bindingFirstRun in
   isl r1 = False \<and>
   tokensUpTo (tokenBuffer (projr r1)) (tokenNum (projr r1) + 1) =
     [Member \<lparr> origin = None, kind = OpenKind, name = ''x'', ns = Some 1 \<rparr>,
      Member \<lparr> origin = None, kind = StringKind, name = ''y'', ns = Some 1 \<rparr>,
      Str ''1'',
      Member \<lparr> origin = None, kind = CloseKind, name = ''x'', ns = Some 1 \<rparr>]"
  by (simp add: bindingFirstRun_def bindingFirstDoc_def fast_simps cong: eval_congs)

lemma tagBefore_run:
  "let p = tagBefore in
   elementStart p = 0 \<and> tokenNum p = 2 \<and>
   latestPrefix p = Some (sampleToken ''a'' 0 None) \<and>
   prefixBuffer p 0 = latestPrefix p \<and> prefixBuffer p 1 = latestPrefix p \<and>
   prefixBuffer p 2 \<noteq> latestPrefix p \<and>
   elems (tokenBuffer p) 0 = Member \<lparr> origin = Some 0, kind = OpenKind, name = ''x'', ns = None \<rparr> \<and>
   elems (tokenBuffer p) 1 = Member \<lparr> origin = Some 1, kind = StringKind, name = ''y'', ns = None \<rparr> \<and>
   elems (tokenBuffer p) 2 = Str ''1'' \<and>
   isl (step sampleEnv (NAMESPACE_ID, 1) p) = False \<and>
   arrayGet (namespaceList_pc (config (projr (step sampleEnv (NAMESPACE_ID, 1) p)))) 1 =
     Some \<lparr> id_pn = 1, base = \<lparr> id_ns = 1, defaultPrefix = ''a'', uri = ''urn:t'',
                                   isSpecial = False \<rparr> \<rparr> \<and>
   (let r2 = bindE (step sampleEnv (NAMESPACE_ID, 1) p) (step sampleEnv (CLOSED_ELEMENT_EMITTED, 0))
    in isl r2 = False \<and>
       tokensUpTo (tokenBuffer (projr r2)) (tokenNum (projr r2) + 1) =
         [Member \<lparr> origin = None, kind = OpenKind, name = ''x'', ns = Some 1 \<rparr>,
          Member \<lparr> origin = None, kind = StringKind, name = ''y'', ns = Some 1 \<rparr>,
          Str ''1'',
          Member \<lparr> origin = None, kind = CloseKind, name = ''x'', ns = Some 1 \<rparr>])"
  by (simp add: tagBefore_def bindingLastDoc_def fast_simps cong: eval_congs)


lemma forward_patch_example:
  "map (elems (tokenBuffer (projr (step sampleEnv (NAMESPACE_ID, 1) tagBefore)))) [0, 1, 2] =
     [Member \<lparr> origin = None, kind = OpenKind, name = ''x'', ns = Some 1 \<rparr>,
      Member \<lparr> origin = None, kind = StringKind, name = ''y'', ns = Some 1 \<rparr>,
      Str ''1'']"
proof -
  note t = tagBefore_run [unfolded Let_def]
  let ?q = "projr (step sampleEnv (NAMESPACE_ID, 1) tagBefore)"
  have h: "step sampleEnv (NAMESPACE_ID, 1) tagBefore = Inr ?q"
    using t by (intro Inr_projr1) simp
  from forward_patch_exact [OF h] obtain n where
    n: "arrayGet (namespaceList_pc (config ?q)) 1 = Some n"
    and e: "\<And>i. elems (tokenBuffer ?q) i =
              (if elementStart tagBefore \<le> i \<and> i \<le> tokenNum tagBefore \<and>
                  prefixBuffer tagBefore (i - elementStart tagBefore) = latestPrefix tagBefore
               then (case elems (tokenBuffer tagBefore) i of
                       Member m \<Rightarrow> Member (resolveToken m n) | v \<Rightarrow> v)
               else elems (tokenBuffer tagBefore) i)"
    by blast
  from n t have n1: "n = \<lparr> id_pn = 1, base = \<lparr> id_ns = 1, defaultPrefix = ''a'', uri = ''urn:t'',
                                   isSpecial = False \<rparr> \<rparr>"
    by simp
  have "elems (tokenBuffer ?q) 0 = Member \<lparr> origin = None, kind = OpenKind, name = ''x'', ns = Some 1 \<rparr>"
    "elems (tokenBuffer ?q) 1 = Member \<lparr> origin = None, kind = StringKind, name = ''y'', ns = Some 1 \<rparr>"
    "elems (tokenBuffer ?q) 2 = Str ''1''"
    using t by (simp_all add: e n1 resolveToken_def)
  then show ?thesis by simp
qed



section \<open>Split writes\<close>

subsection \<open>Slices of a buffer and of the buffers joined\<close>












subsection \<open>The cases of the decoder keep the relation\<close>























subsection \<open>The forward patch keeps the relation\<close>










subsection \<open>The end of a start tag, and a run of codes\<close>








subsection \<open>The passes of a write\<close>









subsection \<open>The end of a write\<close>






subsection \<open>A write, and a sequence of writes\<close>









subsection \<open>The example\<close>









end
